theory Spec2Isabelle
  imports Complex_Main "HOL-Library.Word" "HOL-Library.AList"
begin

section \<open>Strings of the JavaScript runtime\<close>

text \<open>
  A JavaScript string is a sequence of UTF-16 code units. The embedding covers the code
  units U+0000 to U+00FF: a string is a \<open>char list\<close>, one \<open>char\<close> per code unit, so
  \<open>length\<close> is the \<open>.length\<close> of the source. Strings holding code units above
  U+00FF are outside the model.
\<close>

text \<open>ECMAScript WhiteSpace and LineTerminator within U+0000..U+00FF: what
  \<open>String.prototype.trim\<close> strips and what \<open>\s\<close> matches.\<close>

definition isWhiteSpace :: "char \<Rightarrow> bool" where
  "isWhiteSpace c =
     (c \<in> {CHR 0x09, CHR 0x0A, CHR 0x0B, CHR 0x0C, CHR 0x0D, CHR 0x20, CHR 0xA0})"

definition trim :: "string \<Rightarrow> string" where
  "trim s = rev (dropWhile isWhiteSpace (rev (dropWhile isWhiteSpace s)))"

definition upperLetters :: string where
  "upperLetters = ''ABCDEFGHIJKLMNOPQRSTUVWXYZ'' @
     [CHR 0xC0, CHR 0xC1, CHR 0xC2, CHR 0xC3, CHR 0xC4, CHR 0xC5, CHR 0xC6, CHR 0xC7,
      CHR 0xC8, CHR 0xC9, CHR 0xCA, CHR 0xCB, CHR 0xCC, CHR 0xCD, CHR 0xCE, CHR 0xCF,
      CHR 0xD0, CHR 0xD1, CHR 0xD2, CHR 0xD3, CHR 0xD4, CHR 0xD5, CHR 0xD6,
      CHR 0xD8, CHR 0xD9, CHR 0xDA, CHR 0xDB, CHR 0xDC, CHR 0xDD, CHR 0xDE]"

definition lowerLetters :: string where
  "lowerLetters = ''abcdefghijklmnopqrstuvwxyz'' @
     [CHR 0xE0, CHR 0xE1, CHR 0xE2, CHR 0xE3, CHR 0xE4, CHR 0xE5, CHR 0xE6, CHR 0xE7,
      CHR 0xE8, CHR 0xE9, CHR 0xEA, CHR 0xEB, CHR 0xEC, CHR 0xED, CHR 0xEE, CHR 0xEF,
      CHR 0xF0, CHR 0xF1, CHR 0xF2, CHR 0xF3, CHR 0xF4, CHR 0xF5, CHR 0xF6,
      CHR 0xF8, CHR 0xF9, CHR 0xFA, CHR 0xFB, CHR 0xFC, CHR 0xFD, CHR 0xFE]"

text \<open>\<open>String.prototype.toLowerCase\<close> on U+0000..U+00FF: the letters A to Z and the
  Latin-1 capitals U+00C0..U+00DE (without the multiplication sign U+00D7) move to their
  small forms, every other code unit stays.\<close>

definition toLowerChar :: "char \<Rightarrow> char" where
  "toLowerChar c = (case map_of (zip upperLetters lowerLetters) c of Some d \<Rightarrow> d | None \<Rightarrow> c)"

definition toLowerCase :: "string \<Rightarrow> string" where
  "toLowerCase s = map toLowerChar s"

text \<open>\<open>s.slice(a, b)\<close> for indices \<open>0 \<le> a\<close>, \<open>0 \<le> b\<close> (both are clamped to the
  length by \<open>drop\<close> and \<open>take\<close>).\<close>

definition slice :: "string \<Rightarrow> nat \<Rightarrow> nat \<Rightarrow> string" where
  "slice s a b = take (b - a) (drop a s)"

text \<open>\<open>s.indexOf(c)\<close> and \<open>s.lastIndexOf(c)\<close> for a one-character needle; \<open>None\<close>
  is the source's \<open>-1\<close>.\<close>

fun indexOf :: "string \<Rightarrow> char \<Rightarrow> nat option" where
  "indexOf [] c = None"
| "indexOf (x # xs) c = (if x = c then Some 0 else map_option Suc (indexOf xs c))"

definition lastIndexOf :: "string \<Rightarrow> char \<Rightarrow> nat option" where
  "lastIndexOf s c =
     (case indexOf (rev s) c of None \<Rightarrow> None | Some k \<Rightarrow> Some (length s - 1 - k))"

text \<open>\<open>s.startsWith(p)\<close>, and \<open>s.includes(p)\<close> under the name \<open>includesStr\<close>.\<close>

fun startsWith :: "string \<Rightarrow> string \<Rightarrow> bool" where
  "startsWith s [] = True"
| "startsWith [] (p # ps) = False"
| "startsWith (c # cs) (p # ps) = (c = p \<and> startsWith cs ps)"

fun includesStr :: "string \<Rightarrow> string \<Rightarrow> bool" where
  "includesStr [] p = (p = [])"
| "includesStr (c # cs) p = (startsWith (c # cs) p \<or> includesStr cs p)"

section \<open>Errors\<close>

text \<open>
  Every failure the pipeline raises itself is \<open>new Error(message)\<close>; the kinds of the
  specification are told apart by their messages. \<open>SyntaxError\<close> is what
  \<open>JSON.parse\<close> throws, \<open>SystemError\<close> is a failed file-system call, and
  \<open>UpstreamServiceError\<close> is whatever the model transport throws.
\<close>

datatype error =
    Error string
  | SyntaxError
  | SystemError string
  | UpstreamServiceError string

definition InputNotFound :: "string \<Rightarrow> error" where
  "InputNotFound filePath = Error (''Input file not found: '' @ filePath)"

definition MissingCredential :: error where
  "MissingCredential = Error ''GEMINI_API_KEY is required. Set it or pass --api-key.''"

definition OutputExists :: "string \<Rightarrow> error" where
  "OutputExists outputPath =
     Error (''Output file already exists: '' @ outputPath @ ''. Use --force to overwrite.'')"

definition UnsupportedFormat :: "string \<Rightarrow> error" where
  "UnsupportedFormat extension =
     Error (''Unsupported image extension: '' @ (if extension = [] then ''(none)'' else extension))"

definition MalformedModelOutput :: error where
  "MalformedModelOutput = Error ''Model output did not contain a valid JSON array.''"

definition MissingRenderedImage :: error where
  "MissingRenderedImage = Error ''Gemini did not return an image.''"

section \<open>The path module (POSIX)\<close>

text \<open>
  \<open>path.extname\<close> as the runtime's POSIX implementation computes it: one backward scan
  over the path that skips trailing separators, stops at the separator in front of the
  last component, and records the last dot of that component. The scan is written as a
  recursion over the reversed path; the index of the head is the length of the rest.
  \<open>None\<close> stands for the scan's \<open>-1\<close>.
\<close>

record ext_state =
  startDot :: "nat option"
  startPart :: nat
  endPart :: "nat option"
  matchedSlash :: bool
  preDotState :: int

fun extname_scan :: "string \<Rightarrow> ext_state \<Rightarrow> ext_state" where
  "extname_scan [] st = st"
| "extname_scan (c # front) st =
     (let i = length front in
      if c = CHR ''/'' then
        (if \<not> matchedSlash st then st\<lparr>startPart := i + 1\<rparr>
         else extname_scan front st)
      else
        (let st1 = (if endPart st = None
                    then st\<lparr>endPart := Some (i + 1), matchedSlash := False\<rparr> else st);
             st2 = (if c = CHR ''.'' then
                      (if startDot st1 = None then st1\<lparr>startDot := Some i\<rparr>
                       else if preDotState st1 \<noteq> 1 then st1\<lparr>preDotState := 1\<rparr>
                       else st1)
                    else if startDot st1 \<noteq> None then st1\<lparr>preDotState := - 1\<rparr>
                    else st1)
         in extname_scan front st2))"

definition path_extname :: "string \<Rightarrow> string" where
  "path_extname path =
     (let st = extname_scan (rev path)
                 \<lparr>startDot = None, startPart = 0, endPart = None,
                  matchedSlash = True, preDotState = 0\<rparr>
      in case (startDot st, endPart st) of
           (Some sd, Some e) \<Rightarrow>
             if preDotState st = 0 \<or>
                (preDotState st = 1 \<and> sd = e - 1 \<and> sd = startPart st + 1)
             then [] else slice path sd e
         | _ \<Rightarrow> [])"

text \<open>
  \<open>path.dirname\<close>, \<open>path.basename\<close> with a suffix, and \<open>path.join\<close> of two
  segments with the normalisation it applies, in the same style: each scan of the
  runtime is a recursion that carries the scan's variables.
\<close>

fun dirname_scan :: "string \<Rightarrow> bool \<Rightarrow> nat option" where
  "dirname_scan [] matched = None"
| "dirname_scan (c # front) matched =
     (let i = length front + 1 in
      if c = CHR ''/'' then (if \<not> matched then Some i else dirname_scan front matched)
      else dirname_scan front False)"

definition path_dirname :: "string \<Rightarrow> string" where
  "path_dirname path =
     (if path = [] then ''.''
      else
        (let hasRoot = (hd path = CHR ''/'') in
         case dirname_scan (rev (tl path)) True of
           None \<Rightarrow> if hasRoot then ''/'' else ''.''
         | Some e \<Rightarrow> if hasRoot \<and> e = 1 then ''//'' else slice path 0 e))"

fun basename_plain_scan :: "string \<Rightarrow> nat option \<Rightarrow> bool \<Rightarrow> nat \<times> nat option" where
  "basename_plain_scan [] e matched = (0, e)"
| "basename_plain_scan (c # front) e matched =
     (let i = length front in
      if c = CHR ''/'' then
        (if \<not> matched then (i + 1, e) else basename_plain_scan front e matched)
      else if e = None then basename_plain_scan front (Some (i + 1)) False
      else basename_plain_scan front e matched)"

record base_state =
  bStart :: nat
  bEnd :: "nat option"
  bMatchedSlash :: bool
  bExtIdx :: "nat option"
  bFirstNonSlashEnd :: "nat option"

fun basename_suffix_scan :: "string \<Rightarrow> string \<Rightarrow> base_state \<Rightarrow> base_state" where
  "basename_suffix_scan suffix [] st = st"
| "basename_suffix_scan suffix (c # front) st =
     (let i = length front in
      if c = CHR ''/'' then
        (if \<not> bMatchedSlash st then st\<lparr>bStart := i + 1\<rparr>
         else basename_suffix_scan suffix front st)
      else
        (let st1 = (if bFirstNonSlashEnd st = None
                    then st\<lparr>bMatchedSlash := False, bFirstNonSlashEnd := Some (i + 1)\<rparr>
                    else st);
             st2 = (case bExtIdx st1 of
                      None \<Rightarrow> st1
                    | Some k \<Rightarrow>
                        if c = suffix ! k then
                          (if k = 0 then st1\<lparr>bEnd := Some i, bExtIdx := None\<rparr>
                           else st1\<lparr>bExtIdx := Some (k - 1)\<rparr>)
                        else st1\<lparr>bEnd := bFirstNonSlashEnd st1, bExtIdx := None\<rparr>)
         in basename_suffix_scan suffix front st2))"

definition path_basename :: "string \<Rightarrow> string \<Rightarrow> string" where
  "path_basename path suffix =
     (if suffix \<noteq> [] \<and> length suffix \<le> length path then
        (if suffix = path then []
         else
           (let st = basename_suffix_scan suffix (rev path)
                       \<lparr>bStart = 0, bEnd = None, bMatchedSlash = True,
                        bExtIdx = Some (length suffix - 1), bFirstNonSlashEnd = None\<rparr>;
                e = (if bEnd st = Some (bStart st) then bFirstNonSlashEnd st
                     else if bEnd st = None then Some (length path)
                     else bEnd st)
            in case e of
                 Some e' \<Rightarrow> slice path (bStart st) e'
               | None \<Rightarrow> slice path (bStart st) (length path - 1)))
      else
        (case basename_plain_scan (rev path) None True of
           (start, Some e) \<Rightarrow> slice path start e
         | (start, None) \<Rightarrow> []))"

record norm_state =
  res :: string
  lastSegmentLength :: int
  lastSlash :: int
  dots :: int

definition lastIndexInt :: "string \<Rightarrow> char \<Rightarrow> int" where
  "lastIndexInt s c = (case lastIndexOf s c of None \<Rightarrow> - 1 | Some k \<Rightarrow> int k)"

definition normalize_step :: "string \<Rightarrow> bool \<Rightarrow> nat \<Rightarrow> char \<Rightarrow> norm_state \<Rightarrow> norm_state" where
  "normalize_step path allowAboveRoot i code st =
     (if code = CHR ''/'' then
        (if lastSlash st = int i - 1 \<or> dots st = 1 then st\<lparr>lastSlash := int i, dots := 0\<rparr>
         else if dots st = 2 then
           (let above = (if allowAboveRoot
                         then st\<lparr>res := (if res st \<noteq> [] then res st @ ''/..'' else ''..''),
                                 lastSegmentLength := 2\<rparr>
                         else st)\<lparr>lastSlash := int i, dots := 0\<rparr>
            in if length (res st) < 2 \<or> lastSegmentLength st \<noteq> 2 \<or>
                  res st ! (length (res st) - 1) \<noteq> CHR ''.'' \<or>
                  res st ! (length (res st) - 2) \<noteq> CHR ''.''
               then
                 (if 2 < length (res st) then
                    (case lastIndexOf (res st) (CHR ''/'') of
                       None \<Rightarrow> st\<lparr>res := [], lastSegmentLength := 0,
                                   lastSlash := int i, dots := 0\<rparr>
                     | Some k \<Rightarrow>
                         (let r = slice (res st) 0 k
                          in st\<lparr>res := r,
                                lastSegmentLength := int (length r) - 1 - lastIndexInt r (CHR ''/''),
                                lastSlash := int i, dots := 0\<rparr>))
                  else if length (res st) \<noteq> 0 then
                    st\<lparr>res := [], lastSegmentLength := 0, lastSlash := int i, dots := 0\<rparr>
                  else above)
               else above)
         else
           (let seg = slice path (nat (lastSlash st + 1)) i
            in st\<lparr>res := (if res st \<noteq> [] then res st @ ''/'' @ seg else seg),
                  lastSegmentLength := int i - lastSlash st - 1,
                  lastSlash := int i, dots := 0\<rparr>))
      else if code = CHR ''.'' \<and> dots st \<noteq> - 1 then st\<lparr>dots := dots st + 1\<rparr>
      else st\<lparr>dots := - 1\<rparr>)"

fun normalize_loop :: "string \<Rightarrow> bool \<Rightarrow> string \<Rightarrow> nat \<Rightarrow> norm_state \<Rightarrow> norm_state" where
  "normalize_loop path allowAboveRoot [] i st =
     (if path \<noteq> [] \<and> last path = CHR ''/'' then st
      else normalize_step path allowAboveRoot i (CHR ''/'') st)"
| "normalize_loop path allowAboveRoot (c # cs) i st =
     normalize_loop path allowAboveRoot cs (i + 1) (normalize_step path allowAboveRoot i c st)"

definition path_normalize :: "string \<Rightarrow> string" where
  "path_normalize path =
     (if path = [] then ''.''
      else
        (let isAbsolute = (hd path = CHR ''/'');
             trailingSeparator = (last path = CHR ''/'');
             p = res (normalize_loop path (\<not> isAbsolute) path 0
                        \<lparr>res = [], lastSegmentLength = 0, lastSlash = - 1, dots = 0\<rparr>)
         in if p = [] then
              (if isAbsolute then ''/'' else if trailingSeparator then ''./'' else ''.'')
            else
              (let p' = (if trailingSeparator then p @ ''/'' else p)
               in if isAbsolute then ''/'' @ p' else p')))"

definition path_join :: "string \<Rightarrow> string \<Rightarrow> string" where
  "path_join a b =
     (if a = [] \<and> b = [] then ''.''
      else if a = [] then path_normalize b
      else if b = [] then path_normalize a
      else path_normalize (a @ ''/'' @ b))"

section \<open>MimeResolver\<close>

definition SUPPORTED_EXTENSIONS :: "string list" where
  "SUPPORTED_EXTENSIONS = [''.png'', ''.jpg'', ''.jpeg'', ''.webp'', ''.heic'']"

definition inferMimeType :: "string \<Rightarrow> error + string" where
  "inferMimeType filePath =
     (let extension = toLowerCase (path_extname filePath) in
      if extension \<notin> set SUPPORTED_EXTENSIONS then Inl (UnsupportedFormat extension)
      else if extension = ''.png'' then Inr ''image/png''
      else if extension = ''.jpg'' \<or> extension = ''.jpeg'' then Inr ''image/jpeg''
      else if extension = ''.webp'' then Inr ''image/webp''
      else Inr ''image/heic'')"

section \<open>JSON values and \<open>JSON.parse\<close>\<close>

text \<open>
  The values \<open>JSON.parse\<close> returns. A number is an IEEE double: a finite double is a
  rational, and a literal too large for a double parses to an infinity. NaN never comes
  out of \<open>JSON.parse\<close>; the negative zero behaves as zero in every operation of the
  pipeline and is \<open>Finite 0\<close>. An object is the list of its own properties with
  distinct keys (\<open>JSON.parse\<close> creates data properties only, so \<open>__proto__\<close> is an
  ordinary key).
\<close>

datatype jsnum = Finite rat | PosInfinity | NegInfinity

datatype jsval =
    JNull
  | JBool bool
  | JNum jsnum
  | JStr string
  | JArr "jsval list"
  | JObj "(string \<times> jsval) list"

datatype token =
    TLBracket | TRBracket | TLBrace | TRBrace | TComma | TColon
  | TLit jsval

subsection \<open>Lexical analysis\<close>

text \<open>
  The lexer reads one code unit at a time. A run of letters, digits, signs and dots is
  collected as one word and must be \<open>true\<close>, \<open>false\<close>, \<open>null\<close> or a number of the
  JSON grammar: whatever follows a well-formed literal inside such a run is a syntax
  error of \<open>JSON.parse\<close> as well. \<open>None\<close> is the thrown SyntaxError. A number
  literal denotes its exact decimal value (the rounding to the nearest double is not
  part of the model), and an escape \<open>\uXXXX\<close> above U+00FF is rejected, since the
  strings of the model end at U+00FF.
\<close>

definition isDigit :: "char \<Rightarrow> bool" where
  "isDigit c = (c \<in> set ''0123456789'')"

definition isWordChar :: "char \<Rightarrow> bool" where
  "isWordChar c =
     (c \<in> set ''0123456789+-.abcdefghijklmnopqrstuvwxyzABCDEFGHIJKLMNOPQRSTUVWXYZ'')"

definition isControl :: "char \<Rightarrow> bool" where
  "isControl c = ((of_char c :: nat) < 32)"

definition digitsValue :: "string \<Rightarrow> nat" where
  "digitsValue ds = foldl (\<lambda>acc d. 10 * acc + the (indexOf ''0123456789'' d)) 0 ds"

definition hexValue :: "string \<Rightarrow> nat option" where
  "hexValue ds =
     foldl (\<lambda>acc d. case (acc, indexOf ''0123456789abcdef'' (toLowerChar d)) of
                       (Some a, Some v) \<Rightarrow> Some (16 * a + v) | _ \<Rightarrow> None) (Some 0) ds"

definition scaleDecimal :: "bool \<Rightarrow> nat \<Rightarrow> int \<Rightarrow> rat" where
  "scaleDecimal negative m e =
     (let q = (if 0 \<le> e then of_nat (m * 10 ^ nat e) else of_nat m / of_nat (10 ^ nat (- e)))
      in if negative then - q else q)"

text \<open>The JSON number grammar: an optional minus, an integer part without a leading
  zero, an optional fraction and an optional exponent.\<close>

definition parseExponent :: "string \<Rightarrow> int option" where
  "parseExponent r =
     (case r of
        [] \<Rightarrow> Some 0
      | e # r1 \<Rightarrow>
          if e = CHR ''e'' \<or> e = CHR ''E'' then
            (let (minus, ds) =
                   (case r1 of
                      [] \<Rightarrow> (False, [])
                    | s # r2 \<Rightarrow> if s = CHR ''-'' then (True, r2)
                               else if s = CHR ''+'' then (False, r2) else (False, r1))
             in if ds \<noteq> [] \<and> list_all isDigit ds
                then Some (if minus then - int (digitsValue ds) else int (digitsValue ds))
                else None)
          else None)"

definition parseNumber :: "string \<Rightarrow> jsval option" where
  "parseNumber w =
     (let (negative, r0) = (case w of [] \<Rightarrow> (False, [])
                            | c # r \<Rightarrow> if c = CHR ''-'' then (True, r) else (False, w));
          ip = takeWhile isDigit r0;
          r1 = dropWhile isDigit r0
      in if ip = [] \<or> (1 < length ip \<and> hd ip = CHR ''0'') then None
         else
           (let (fp, r2, ok) =
                  (case r1 of
                     [] \<Rightarrow> ([], [], True)
                   | d # r \<Rightarrow>
                       if d = CHR ''.''
                       then (takeWhile isDigit r, dropWhile isDigit r, takeWhile isDigit r \<noteq> [])
                       else ([], r1, True))
            in if \<not> ok then None
               else (case parseExponent r2 of
                       None \<Rightarrow> None
                     | Some e \<Rightarrow>
                         Some (JNum (Finite (scaleDecimal negative (digitsValue (ip @ fp))
                                                (e - int (length fp))))))))"

definition wordToken :: "string \<Rightarrow> token option" where
  "wordToken w =
     (if w = ''true'' then Some (TLit (JBool True))
      else if w = ''false'' then Some (TLit (JBool False))
      else if w = ''null'' then Some (TLit JNull)
      else map_option TLit (parseNumber w))"

definition unescape :: "char \<Rightarrow> char option" where
  "unescape c =
     map_of [(CHR 0x22, CHR 0x22), (CHR 0x5C, CHR 0x5C), (CHR ''/'', CHR ''/''),
             (CHR ''b'', CHR 0x08), (CHR ''f'', CHR 0x0C), (CHR ''n'', CHR 0x0A),
             (CHR ''r'', CHR 0x0D), (CHR ''t'', CHR 0x09)] c"

datatype lmode =
    Top
  | InString string
  | InEscape string
  | InUnicode string string
  | InWord string

text \<open>What a code unit does between tokens: the four JSON white-space characters are
  skipped, a punctuator is a token, a quote opens a string, a word character opens a
  word.\<close>

definition topStep :: "char \<Rightarrow> (token list \<times> lmode) option" where
  "topStep c =
     (if c \<in> {CHR 0x09, CHR 0x0A, CHR 0x0D, CHR 0x20} then Some ([], Top)
      else if c = CHR ''['' then Some ([TLBracket], Top)
      else if c = CHR '']'' then Some ([TRBracket], Top)
      else if c = CHR ''{'' then Some ([TLBrace], Top)
      else if c = CHR ''}'' then Some ([TRBrace], Top)
      else if c = CHR '','' then Some ([TComma], Top)
      else if c = CHR '':'' then Some ([TColon], Top)
      else if c = CHR 0x22 then Some ([], InString [])
      else if isWordChar c then Some ([], InWord [c])
      else None)"

fun lex :: "lmode \<Rightarrow> string \<Rightarrow> token list option" where
  "lex Top [] = Some []"
| "lex (InWord w) [] = map_option (\<lambda>t. [t]) (wordToken (rev w))"
| "lex (InString acc) [] = None"
| "lex (InEscape acc) [] = None"
| "lex (InUnicode acc ds) [] = None"
| "lex Top (c # cs) =
     (case topStep c of
        None \<Rightarrow> None
      | Some (toks, m) \<Rightarrow> map_option ((@) toks) (lex m cs))"
| "lex (InWord w) (c # cs) =
     (if isWordChar c then lex (InWord (c # w)) cs
      else (case (wordToken (rev w), topStep c) of
              (Some t, Some (toks, m)) \<Rightarrow> map_option ((@) (t # toks)) (lex m cs)
            | _ \<Rightarrow> None))"
| "lex (InString acc) (c # cs) =
     (if c = CHR 0x22 then map_option ((#) (TLit (JStr (rev acc)))) (lex Top cs)
      else if c = CHR 0x5C then lex (InEscape acc) cs
      else if isControl c then None
      else lex (InString (c # acc)) cs)"
| "lex (InEscape acc) (c # cs) =
     (if c = CHR ''u'' then lex (InUnicode acc []) cs
      else (case unescape c of
              None \<Rightarrow> None
            | Some d \<Rightarrow> lex (InString (d # acc)) cs))"
| "lex (InUnicode acc ds) (c # cs) =
     (if length ds < 3 then lex (InUnicode acc (ds @ [c])) cs
      else (case hexValue (ds @ [c]) of
              None \<Rightarrow> None
            | Some v \<Rightarrow> if v < 256 then lex (InString (char_of v # acc)) cs else None))"

subsection \<open>Syntactic analysis\<close>

text \<open>
  The parser is a pushdown automaton over the tokens. A frame of the stack is an open
  array with the elements read so far (latest first), or an open object with the
  properties read so far and the key that waits for its value. A repeated key
  overwrites the earlier value in place, as \<open>JSON.parse\<close> does.
\<close>

datatype frame =
    ArrF "jsval list"
  | ObjF "(string \<times> jsval) list" "string option"

datatype pstate =
    WantValue | WantValueOrClose | WantKey | WantKeyOrClose | WantColon | AfterValue
  | Done jsval

definition complete :: "jsval \<Rightarrow> frame list \<Rightarrow> (pstate \<times> frame list) option" where
  "complete v stk =
     (case stk of
        [] \<Rightarrow> Some (Done v, [])
      | ArrF acc # rest \<Rightarrow> Some (AfterValue, ArrF (v # acc) # rest)
      | ObjF mem (Some k) # rest \<Rightarrow> Some (AfterValue, ObjF (AList.update k v mem) None # rest)
      | ObjF mem None # rest \<Rightarrow> None)"

definition valueStart :: "bool \<Rightarrow> frame list \<Rightarrow> token \<Rightarrow> (pstate \<times> frame list) option" where
  "valueStart allowClose stk t =
     (case t of
        TLit v \<Rightarrow> complete v stk
      | TLBracket \<Rightarrow> Some (WantValueOrClose, ArrF [] # stk)
      | TLBrace \<Rightarrow> Some (WantKeyOrClose, ObjF [] None # stk)
      | TRBracket \<Rightarrow>
          (case stk of
             ArrF acc # rest \<Rightarrow> if allowClose then complete (JArr (rev acc)) rest else None
           | _ \<Rightarrow> None)
      | _ \<Rightarrow> None)"

definition keyStart :: "bool \<Rightarrow> frame list \<Rightarrow> token \<Rightarrow> (pstate \<times> frame list) option" where
  "keyStart allowClose stk t =
     (case stk of
        ObjF mem None # rest \<Rightarrow>
          (case t of
             TLit (JStr k) \<Rightarrow> Some (WantColon, ObjF mem (Some k) # rest)
           | TRBrace \<Rightarrow> if allowClose then complete (JObj mem) rest else None
           | _ \<Rightarrow> None)
      | _ \<Rightarrow> None)"

definition afterValue :: "frame list \<Rightarrow> token \<Rightarrow> (pstate \<times> frame list) option" where
  "afterValue stk t =
     (case stk of
        ArrF acc # rest \<Rightarrow>
          (case t of
             TComma \<Rightarrow> Some (WantValue, stk)
           | TRBracket \<Rightarrow> complete (JArr (rev acc)) rest
           | _ \<Rightarrow> None)
      | ObjF mem None # rest \<Rightarrow>
          (case t of
             TComma \<Rightarrow> Some (WantKey, stk)
           | TRBrace \<Rightarrow> complete (JObj mem) rest
           | _ \<Rightarrow> None)
      | _ \<Rightarrow> None)"

definition pstep :: "pstate \<Rightarrow> frame list \<Rightarrow> token \<Rightarrow> (pstate \<times> frame list) option" where
  "pstep st stk t =
     (case st of
        WantValue \<Rightarrow> valueStart False stk t
      | WantValueOrClose \<Rightarrow> valueStart True stk t
      | WantKey \<Rightarrow> keyStart False stk t
      | WantKeyOrClose \<Rightarrow> keyStart True stk t
      | WantColon \<Rightarrow> (case t of TColon \<Rightarrow> Some (WantValue, stk) | _ \<Rightarrow> None)
      | AfterValue \<Rightarrow> afterValue stk t
      | Done v \<Rightarrow> None)"

fun prun :: "pstate \<Rightarrow> frame list \<Rightarrow> token list \<Rightarrow> jsval option" where
  "prun st stk [] = (case st of Done v \<Rightarrow> Some v | _ \<Rightarrow> None)"
| "prun st stk (t # ts) =
     (case pstep st stk t of
        None \<Rightarrow> None
      | Some (st', stk') \<Rightarrow> prun st' stk' ts)"

text \<open>\<open>JSON.parse(text)\<close>; \<open>None\<close> is the SyntaxError it throws.\<close>

definition JSON_parse :: "string \<Rightarrow> jsval option" where
  "JSON_parse s = (case lex Top s of None \<Rightarrow> None | Some toks \<Rightarrow> prun WantValue [] toks)"

section \<open>JsonArrayExtractor\<close>

text \<open>\<open>text.replace(/^```json\s*/i, "")\<close>: a leading fence with the tag \<open>json\<close> in
  any letter case goes, with the white space after it.\<close>

definition stripFenceOpen :: "string \<Rightarrow> string" where
  "stripFenceOpen s =
     (if toLowerCase (take 7 s) = ''```json'' then dropWhile isWhiteSpace (drop 7 s) else s)"

text \<open>\<open>text.replace(/```$/i, "")\<close>: a fence that ends the text goes.\<close>

definition stripFenceClose :: "string \<Rightarrow> string" where
  "stripFenceClose s = (if startsWith (rev s) ''```'' then rev (drop 3 (rev s)) else s)"

definition parseJsonArray :: "string \<Rightarrow> error + jsval list" where
  "parseJsonArray rawText =
     (let text = trim rawText;
          unfenced = trim (stripFenceClose (stripFenceOpen text))
      in case JSON_parse unfenced of
           Some (JArr parsed) \<Rightarrow> Inr parsed
         | _ \<Rightarrow>
           (case (indexOf unfenced (CHR ''[''), lastIndexOf unfenced (CHR '']'')) of
              (Some start, Some end') \<Rightarrow>
                if start < end' then
                  (case JSON_parse (slice unfenced start (end' + 1)) of
                     None \<Rightarrow> Inl SyntaxError
                   | Some (JArr parsed) \<Rightarrow> Inr parsed
                   | Some _ \<Rightarrow> Inl MalformedModelOutput)
                else Inl MalformedModelOutput
            | _ \<Rightarrow> Inl MalformedModelOutput))"

section \<open>Buffers and base64\<close>

text \<open>
  A \<open>Buffer\<close> is a list of bytes. \<open>buffer.toString("base64")\<close> writes three bytes
  as four characters of the standard alphabet and pads the last group with \<open>=\<close>.
  \<open>Buffer.from(text, "base64")\<close> reads leniently: it also takes the URL-safe
  characters \<open>-\<close> and \<open>_\<close>, skips every character outside the alphabets, and stops at
  the padding.
\<close>

type_synonym byte = "8 word"

definition b64chars :: string where
  "b64chars = ''ABCDEFGHIJKLMNOPQRSTUVWXYZabcdefghijklmnopqrstuvwxyz0123456789+/''"

definition b64char :: "nat \<Rightarrow> char" where
  "b64char n = b64chars ! n"

fun base64_encode :: "byte list \<Rightarrow> string" where
  "base64_encode [] = []"
| "base64_encode [a] =
     [b64char (unat a div 4), b64char (unat a mod 4 * 16), CHR ''='', CHR ''='']"
| "base64_encode [a, b] =
     [b64char (unat a div 4), b64char (unat a mod 4 * 16 + unat b div 16),
      b64char (unat b mod 16 * 4), CHR ''='']"
| "base64_encode (a # b # c # bs) =
     [b64char (unat a div 4), b64char (unat a mod 4 * 16 + unat b div 16),
      b64char (unat b mod 16 * 4 + unat c div 64), b64char (unat c mod 64)]
     @ base64_encode bs"

definition b64value :: "char \<Rightarrow> nat option" where
  "b64value c =
     (if c = CHR ''-'' then Some 62 else if c = CHR ''_'' then Some 63
      else indexOf b64chars c)"

fun sextets :: "string \<Rightarrow> nat list" where
  "sextets [] = []"
| "sextets (c # cs) =
     (if c = CHR ''='' then []
      else (case b64value c of None \<Rightarrow> sextets cs | Some v \<Rightarrow> v # sextets cs))"

fun bytesOfSextets :: "nat list \<Rightarrow> byte list" where
  "bytesOfSextets (s1 # s2 # s3 # s4 # ss) =
     [of_nat (s1 * 4 + s2 div 16), of_nat (s2 mod 16 * 16 + s3 div 4),
      of_nat (s3 mod 4 * 64 + s4)] @ bytesOfSextets ss"
| "bytesOfSextets [s1, s2, s3] =
     [of_nat (s1 * 4 + s2 div 16), of_nat (s2 mod 16 * 16 + s3 div 4)]"
| "bytesOfSextets [s1, s2] = [of_nat (s1 * 4 + s2 div 16)]"
| "bytesOfSextets [s1] = []"
| "bytesOfSextets [] = []"

definition base64_decode :: "string \<Rightarrow> byte list" where
  "base64_decode s = bytesOfSextets (sextets s)"

section \<open>Requests, responses and the world\<close>

record TranslateRequest =
  reqInputPath :: string
  reqOutputPath :: "string option"
  reqInputLang :: "string option"
  reqOutputLang :: "string option"
  reqApiKey :: "string option"
  reqImageModel :: "string option"
  reqTextModel :: "string option"
  reqForce :: "bool option"

record ExtractedEntry =
  entryText :: string
  entryLanguage :: "string option"

record ExtractedTranslation =
  sourceText :: string
  sourceLanguage :: "string option"
  translatedText :: string

record InlineImage =
  imageData :: string
  imageMimeType :: string

text \<open>
  A request to \<open>generateContent\<close>: the model, the parts of the one content entry, and
  the response modalities of the configuration when it has one. A text part is its
  text, followed by the \<open>JSON.stringify\<close> of a value when the prompt ends with one;
  the value is kept as a value instead of its serialisation.
\<close>

datatype RequestPart =
    InlineDataPart InlineImage
  | TextPart string "jsval option"

record GenerateContentRequest =
  gcModel :: string
  gcParts :: "RequestPart list"
  gcResponseModalities :: "string list option"

text \<open>What \<open>generateContent\<close> returns, every field optional as in the client
  library: \<open>response.text\<close> and \<open>response.candidates[k].content.parts[j].inlineData.data\<close>.\<close>

record Blob =
  blobData :: "string option"
  blobMimeType :: "string option"

record Part =
  partInlineData :: "Blob option"
  partText :: "string option"

record Content =
  contentParts :: "Part list option"

record Candidate =
  candContent :: "Content option"

record Response =
  respText :: "string option"
  respCandidates :: "Candidate list option"

text \<open>
  The model service is a function of the credential, the requests made so far and the
  request at hand; it returns a response or throws. The world is the file system (a map
  from paths to the bytes of regular files) and the log of the upstream calls made. The
  host gives the service and the value of the environment variable
  \<open>GEMINI_API_KEY\<close>. A path exists when the map holds it; directories and
  permissions are not part of the model, so a file that exists can be read and every
  write succeeds.
\<close>

type_synonym service =
  "string \<Rightarrow> GenerateContentRequest list \<Rightarrow> GenerateContentRequest \<Rightarrow> error + Response"

record world =
  files :: "string \<Rightarrow> byte list option"
  calls :: "GenerateContentRequest list"

record host =
  upstream :: service
  envApiKey :: "string option"

type_synonym 'a io = "world \<Rightarrow> (error + 'a) \<times> world"

definition returnIO :: "'a \<Rightarrow> 'a io" where
  "returnIO x w = (Inr x, w)"

definition liftIO :: "error + 'a \<Rightarrow> 'a io" where
  "liftIO r w = (r, w)"

text \<open>\<open>await\<close> in sequence: a thrown error ends the operation with the world as it
  is at that moment.\<close>

definition bindIO :: "'a io \<Rightarrow> ('a \<Rightarrow> 'b io) \<Rightarrow> 'b io" where
  "bindIO m f w = (case m w of (Inl e, w') \<Rightarrow> (Inl e, w') | (Inr x, w') \<Rightarrow> f x w')"

primrec message :: "error \<Rightarrow> string" where
  "message (Error m) = m"
| "message SyntaxError = []"
| "message (SystemError m) = m"
| "message (UpstreamServiceError m) = m"

definition ENOENT :: "string \<Rightarrow> string \<Rightarrow> error" where
  "ENOENT syscall filePath =
     SystemError (''ENOENT: no such file or directory, '' @ syscall @ '' '' @
                  [CHR 0x27] @ filePath @ [CHR 0x27])"

definition fs_access :: "string \<Rightarrow> unit io" where
  "fs_access filePath w =
     (case files w filePath of
        None \<Rightarrow> (Inl (ENOENT ''access'' filePath), w)
      | Some bytes \<Rightarrow> (Inr (), w))"

definition fs_stat :: "string \<Rightarrow> unit io" where
  "fs_stat filePath w =
     (case files w filePath of
        None \<Rightarrow> (Inl (ENOENT ''stat'' filePath), w)
      | Some bytes \<Rightarrow> (Inr (), w))"

definition fs_readFile :: "string \<Rightarrow> (byte list) io" where
  "fs_readFile filePath w =
     (case files w filePath of
        None \<Rightarrow> (Inl (ENOENT ''open'' filePath), w)
      | Some bytes \<Rightarrow> (Inr bytes, w))"

definition fs_writeFile :: "string \<Rightarrow> byte list \<Rightarrow> unit io" where
  "fs_writeFile filePath bytes w = (Inr (), w\<lparr>files := (files w)(filePath \<mapsto> bytes)\<rparr>)"

text \<open>One call of \<open>ai.models.generateContent\<close>: the call is logged whether the
  service answers or throws.\<close>

definition generateContent ::
  "(GenerateContentRequest list \<Rightarrow> GenerateContentRequest \<Rightarrow> error + Response)
   \<Rightarrow> GenerateContentRequest \<Rightarrow> Response io" where
  "generateContent ai request w = (ai (calls w) request, w\<lparr>calls := calls w @ [request]\<rparr>)"

text \<open>
  The test double of the repository's test suite (\<open>test/pipeline.test.js\<close>): the
  fake client hands out queued responses in the order of the calls, and
  \<open>{ text: "[]" }\<close> once the queue is empty.
\<close>

definition queuedService :: "(error + Response) list \<Rightarrow> service" where
  "queuedService responses key history request =
     (if length history < length responses then responses ! length history
      else Inr \<lparr>respText = Some ''[]'', respCandidates = None\<rparr>)"

section \<open>The pipeline\<close>

definition DEFAULT_IMAGE_MODEL :: string where
  "DEFAULT_IMAGE_MODEL = ''gemini-3-pro-image-preview''"

definition DEFAULT_TEXT_MODEL :: string where
  "DEFAULT_TEXT_MODEL = ''gemini-3-pro-preview''"

definition resolveApiKey :: "string option \<Rightarrow> string option \<Rightarrow> error + string" where
  "resolveApiKey env explicitApiKey =
     (let key = (case explicitApiKey of Some k \<Rightarrow> Some k | None \<Rightarrow> env) in
      case key of
        None \<Rightarrow> Inl MissingCredential
      | Some k \<Rightarrow> if k = [] then Inl MissingCredential else Inr k)"

definition ensureFileExists :: "string \<Rightarrow> unit io" where
  "ensureFileExists filePath w =
     (case fs_access filePath w of
        (Inl e, w') \<Rightarrow> (Inl (InputNotFound filePath), w')
      | (Inr u, w') \<Rightarrow> (Inr (), w'))"

text \<open>The \<open>try\<close> block always ends in a throw (the error of \<open>stat\<close>, or the
  OutputExists error after a successful \<open>stat\<close>); the \<open>catch\<close> rethrows what
  mentions "already exists" in its message and swallows the rest.\<close>

definition ensureOutputWritable :: "string \<Rightarrow> bool \<Rightarrow> unit io" where
  "ensureOutputWritable outputPath force w =
     (if force then (Inr (), w)
      else
        (let (thrown, w') =
               (case fs_stat outputPath w of
                  (Inl e, w') \<Rightarrow> (e, w')
                | (Inr u, w') \<Rightarrow> (OutputExists outputPath, w'))
         in if includesStr (message thrown) ''already exists'' then (Inl thrown, w')
            else (Inr (), w')))"

definition readInlineImage :: "string \<Rightarrow> InlineImage io" where
  "readInlineImage inputPath =
     bindIO (liftIO (inferMimeType inputPath)) (\<lambda>mimeType.
     bindIO (fs_readFile inputPath) (\<lambda>buffer.
     returnIO \<lparr>imageData = base64_encode buffer, imageMimeType = mimeType\<rparr>))"

text \<open>\<open>item ?? {}\<close>, and the reading of a property. The pipeline reads the
  properties \<open>text\<close>, \<open>language\<close>, \<open>index\<close> and \<open>translation\<close> only; none of them
  exists on a string, a number, a boolean or an array, nor on their prototypes, so on
  everything but an object the reading is \<open>undefined\<close> (\<open>None\<close>).\<close>

definition orEmptyObject :: "jsval \<Rightarrow> jsval" where
  "orEmptyObject item = (case item of JNull \<Rightarrow> JObj [] | _ \<Rightarrow> item)"

definition getProp :: "jsval \<Rightarrow> string \<Rightarrow> jsval option" where
  "getProp row key = (case row of JObj props \<Rightarrow> map_of props key | _ \<Rightarrow> None)"

definition joinSpace :: "string list \<Rightarrow> string" where
  "joinSpace parts = (case parts of [] \<Rightarrow> [] | p # ps \<Rightarrow> foldl (\<lambda>acc q. acc @ '' '' @ q) p ps)"

definition extractPrompt :: string where
  "extractPrompt = joinSpace
     [''Extract every visible text segment from this image.'',
      ''Return only JSON array items with keys: text, language.'',
      ''language should be ISO 639-1 when possible.'',
      ''If nothing is found, return an empty array.'']"

definition normalizeEntry :: "jsval \<Rightarrow> ExtractedEntry" where
  "normalizeEntry item =
     (let row = orEmptyObject item in
      \<lparr>entryText = (case getProp row ''text'' of Some (JStr s) \<Rightarrow> trim s | _ \<Rightarrow> []),
       entryLanguage = (case getProp row ''language'' of Some (JStr s) \<Rightarrow> Some s | _ \<Rightarrow> None)\<rparr>)"

text \<open>The request object of the extraction call.\<close>

definition extractRequest :: "string \<Rightarrow> InlineImage \<Rightarrow> GenerateContentRequest" where
  "extractRequest imageModel inlineImage =
     \<lparr>gcModel = imageModel,
      gcParts = [InlineDataPart inlineImage, TextPart extractPrompt None],
      gcResponseModalities = None\<rparr>"

definition extractTextEntries ::
  "(GenerateContentRequest list \<Rightarrow> GenerateContentRequest \<Rightarrow> error + Response)
   \<Rightarrow> string \<Rightarrow> InlineImage \<Rightarrow> (ExtractedEntry list) io" where
  "extractTextEntries ai imageModel inlineImage =
     bindIO (generateContent ai (extractRequest imageModel inlineImage)) (\<lambda>response.
     bindIO (liftIO (parseJsonArray (case respText response of None \<Rightarrow> [] | Some t \<Rightarrow> t)))
       (\<lambda>rawItems.
     returnIO (filter (\<lambda>item. 0 < length (entryText item)) (map normalizeEntry rawItems))))"

text \<open>
  The comparisons of the translation loop on a number, and the assignment
  \<open>output[index] = value\<close>. The assignment sets an element when \<open>index\<close> is an
  integer; for any other number it sets a named property of the array object, which no
  later step reads (\<open>map\<close> visits the elements only). The guards of the loop leave only
  \<open>0 \<le> index < output.length\<close> at the assignment, so it never extends the array.
\<close>

definition ltZero :: "jsnum \<Rightarrow> bool" where
  "ltZero n = (case n of Finite q \<Rightarrow> q < 0 | PosInfinity \<Rightarrow> False | NegInfinity \<Rightarrow> True)"

definition geLength :: "jsnum \<Rightarrow> nat \<Rightarrow> bool" where
  "geLength n len =
     (case n of Finite q \<Rightarrow> of_nat len \<le> q | PosInfinity \<Rightarrow> True | NegInfinity \<Rightarrow> False)"

definition arrayIndex :: "jsnum \<Rightarrow> nat option" where
  "arrayIndex n =
     (case n of
        Finite q \<Rightarrow> if 0 \<le> q \<and> of_int \<lfloor>q\<rfloor> = q then Some (nat \<lfloor>q\<rfloor>) else None
      | _ \<Rightarrow> None)"

definition assignElement :: "string list \<Rightarrow> jsnum \<Rightarrow> string \<Rightarrow> string list" where
  "assignElement output index v =
     (case arrayIndex index of None \<Rightarrow> output | Some i \<Rightarrow> output[i := v])"

text \<open>The body of the \<open>for ... of\<close> loop over the raw items, and the loop.\<close>

definition translateStep :: "jsval \<Rightarrow> string list \<Rightarrow> string list" where
  "translateStep item output =
     (let row = orEmptyObject item in
      case getProp row ''index'' of
        Some (JNum index) \<Rightarrow>
          if ltZero index \<or> geLength index (length output) then output
          else assignElement output index
                 (case getProp row ''translation'' of Some (JStr s) \<Rightarrow> s | _ \<Rightarrow> [])
      | _ \<Rightarrow> output)"

fun translateLoop :: "jsval list \<Rightarrow> string list \<Rightarrow> string list" where
  "translateLoop [] output = output"
| "translateLoop (item # rawItems) output = translateLoop rawItems (translateStep item output)"

definition translatePayload :: "ExtractedEntry list \<Rightarrow> jsval" where
  "translatePayload entries =
     JArr (map (\<lambda>index.
                  JObj ([(''index'', JNum (Finite (of_nat index))),
                         (''text'', JStr (entryText (entries ! index)))] @
                        (case entryLanguage (entries ! index) of
                           None \<Rightarrow> []
                         | Some l \<Rightarrow> [(''language'', JStr l)])))
               [0..<length entries])"

definition translatePrompt :: "string \<Rightarrow> string \<Rightarrow> string" where
  "translatePrompt inputLang outputLang =
     (let sourceInstruction =
            (if toLowerCase inputLang = ''auto''
             then ''Auto-detect source language per entry.''
             else ''Source language for all entries: '' @ inputLang @ ''.'')
      in joinSpace
           [''Translate each item into '' @ outputLang @ ''.'',
            sourceInstruction,
            ''Return only a JSON array with objects: { index, translation }.'',
            ''Preserve meaning and tone.''])"

text \<open>The request object of the translation call: the prompt, two line feeds and the
  serialised payload.\<close>

definition translateRequest ::
  "string \<Rightarrow> string \<Rightarrow> string \<Rightarrow> ExtractedEntry list \<Rightarrow> GenerateContentRequest" where
  "translateRequest textModel inputLang outputLang entries =
     \<lparr>gcModel = textModel,
      gcParts = [TextPart (translatePrompt inputLang outputLang @ [CHR 0x0A, CHR 0x0A])
                   (Some (translatePayload entries))],
      gcResponseModalities = None\<rparr>"

definition translateEntries ::
  "(GenerateContentRequest list \<Rightarrow> GenerateContentRequest \<Rightarrow> error + Response)
   \<Rightarrow> string \<Rightarrow> string \<Rightarrow> string \<Rightarrow> ExtractedEntry list \<Rightarrow> (string list) io" where
  "translateEntries ai textModel inputLang outputLang entries =
     (if length entries = 0 then returnIO []
      else
        bindIO (generateContent ai (translateRequest textModel inputLang outputLang entries))
          (\<lambda>response.
        bindIO (liftIO (parseJsonArray (case respText response of None \<Rightarrow> [] | Some t \<Rightarrow> t)))
          (\<lambda>rawItems.
        (let output = translateLoop rawItems (replicate (length entries) [])
         in returnIO (map (\<lambda>index. if output ! index \<noteq> [] then output ! index
                                    else entryText (entries ! index))
                          [0..<length output])))))"

text \<open>\<open>part.inlineData?.data\<close>, and the truthiness of an optional string.\<close>

definition inlineDataOf :: "Part \<Rightarrow> string option" where
  "inlineDataOf part = (case partInlineData part of None \<Rightarrow> None | Some blob \<Rightarrow> blobData blob)"

definition truthy :: "string option \<Rightarrow> bool" where
  "truthy v = (case v of None \<Rightarrow> False | Some s \<Rightarrow> s \<noteq> [])"

text \<open>\<open>response.candidates?.[0]?.content?.parts ?? []\<close>.\<close>

definition firstCandidateParts :: "Response \<Rightarrow> Part list" where
  "firstCandidateParts response =
     (case respCandidates response of
        None \<Rightarrow> []
      | Some cs \<Rightarrow>
          (case cs of
             [] \<Rightarrow> []
           | c # rest \<Rightarrow>
               (case candContent c of
                  None \<Rightarrow> []
                | Some ct \<Rightarrow> (case contentParts ct of None \<Rightarrow> [] | Some ps \<Rightarrow> ps))))"

definition renderMapping :: "ExtractedEntry list \<Rightarrow> string list \<Rightarrow> jsval" where
  "renderMapping entries translations =
     JArr (map (\<lambda>index.
                  JObj [(''source'', JStr (entryText (entries ! index))),
                        (''translation'',
                           JStr (if index < length translations then translations ! index
                                 else entryText (entries ! index)))])
               [0..<length entries])"

definition renderPrompt :: "string \<Rightarrow> string" where
  "renderPrompt outputLang =
     joinSpace
       [''Recreate this image with text translated to '' @ outputLang @ ''.'',
        ''Replace only text. Keep layout, style, and non-text pixels unchanged.'',
        ''Use this exact mapping JSON: '']"

text \<open>The request object of the render call; it asks for the image modality.\<close>

definition renderRequest ::
  "string \<Rightarrow> string \<Rightarrow> InlineImage \<Rightarrow> ExtractedEntry list \<Rightarrow> string list
   \<Rightarrow> GenerateContentRequest" where
  "renderRequest imageModel outputLang inlineImage entries translations =
     \<lparr>gcModel = imageModel,
      gcParts = [InlineDataPart inlineImage,
                 TextPart (renderPrompt outputLang)
                   (Some (renderMapping entries translations))],
      gcResponseModalities = Some [''IMAGE'']\<rparr>"

definition renderImage ::
  "(GenerateContentRequest list \<Rightarrow> GenerateContentRequest \<Rightarrow> error + Response)
   \<Rightarrow> string \<Rightarrow> string \<Rightarrow> InlineImage \<Rightarrow> ExtractedEntry list \<Rightarrow> string list \<Rightarrow> string io" where
  "renderImage ai imageModel outputLang inlineImage entries translations =
     bindIO (generateContent ai
               (renderRequest imageModel outputLang inlineImage entries translations))
       (\<lambda>response.
     (let parts = firstCandidateParts response;
          imagePart = find (\<lambda>part. truthy (inlineDataOf part)) parts
      in case imagePart of
           None \<Rightarrow> liftIO (Inl MissingRenderedImage)
         | Some part \<Rightarrow>
             (case inlineDataOf part of
                None \<Rightarrow> liftIO (Inl MissingRenderedImage)
              | Some d \<Rightarrow> if d = [] then liftIO (Inl MissingRenderedImage) else returnIO d)))"

definition defaultOutputPath :: "string \<Rightarrow> string" where
  "defaultOutputPath inputPath =
     (let extension = path_extname inputPath;
          baseName = path_basename inputPath extension
      in path_join (path_dirname inputPath) (baseName @ ''_translated'' @ extension))"

text \<open>\<open>value ?? fallback\<close> on an optional field.\<close>

definition orDefault :: "'a option \<Rightarrow> 'a \<Rightarrow> 'a" where
  "orDefault v d = (case v of None \<Rightarrow> d | Some x \<Rightarrow> x)"

definition recreateImageWithTranslatedText :: "host \<Rightarrow> TranslateRequest \<Rightarrow> string io" where
  "recreateImageWithTranslatedText h request =
     bindIO (ensureFileExists (reqInputPath request)) (\<lambda>u.
     (let outputPath = orDefault (reqOutputPath request) (defaultOutputPath (reqInputPath request))
      in
     bindIO (ensureOutputWritable outputPath (orDefault (reqForce request) False)) (\<lambda>u.
     bindIO (readInlineImage (reqInputPath request)) (\<lambda>inlineImage.
     bindIO (liftIO (resolveApiKey (envApiKey h) (reqApiKey request))) (\<lambda>key.
     (let ai = upstream h key;
          inputLang = orDefault (reqInputLang request) ''auto'';
          outputLang = orDefault (reqOutputLang request) ''english'';
          imageModel = orDefault (reqImageModel request) DEFAULT_IMAGE_MODEL;
          textModel = orDefault (reqTextModel request) DEFAULT_TEXT_MODEL
      in
     bindIO (extractTextEntries ai imageModel inlineImage) (\<lambda>entries.
     bindIO (translateEntries ai textModel inputLang outputLang entries) (\<lambda>translations.
     bindIO (if length entries = 0 then returnIO (imageData inlineImage)
             else renderImage ai imageModel outputLang inlineImage entries translations)
       (\<lambda>outputBase64.
     bindIO (fs_writeFile outputPath (base64_decode outputBase64)) (\<lambda>u.
     returnIO outputPath))))))))))"

definition extractAndTranslateText ::
  "host \<Rightarrow> TranslateRequest \<Rightarrow> (ExtractedTranslation list) io" where
  "extractAndTranslateText h request =
     bindIO (ensureFileExists (reqInputPath request)) (\<lambda>u.
     bindIO (readInlineImage (reqInputPath request)) (\<lambda>inlineImage.
     bindIO (liftIO (resolveApiKey (envApiKey h) (reqApiKey request))) (\<lambda>key.
     (let ai = upstream h key;
          inputLang = orDefault (reqInputLang request) ''auto'';
          outputLang = orDefault (reqOutputLang request) ''english'';
          imageModel = orDefault (reqImageModel request) DEFAULT_IMAGE_MODEL;
          textModel = orDefault (reqTextModel request) DEFAULT_TEXT_MODEL
      in
     bindIO (extractTextEntries ai imageModel inlineImage) (\<lambda>entries.
     bindIO (translateEntries ai textModel inputLang outputLang entries) (\<lambda>translations.
     returnIO (map (\<lambda>index.
                      \<lparr>sourceText = entryText (entries ! index),
                       sourceLanguage = entryLanguage (entries ! index),
                       translatedText = (if index < length translations then translations ! index
                                         else entryText (entries ! index))\<rparr>)
                   [0..<length entries])))))))"

section \<open>The merge of the specification\<close>





section \<open>Fixtures\<close>

text \<open>
  The fixtures of the test suite: a request that names the input only, a request with
  an output path and an overwrite flag, a file system with an input image, an existing
  output file and a file of an unsupported format, and hosts with and without a
  credential in the environment.
\<close>

definition requestFor :: "string \<Rightarrow> TranslateRequest" where
  "requestFor inputPath =
     \<lparr>reqInputPath = inputPath, reqOutputPath = None, reqInputLang = None,
      reqOutputLang = None, reqApiKey = None, reqImageModel = None, reqTextModel = None,
      reqForce = None\<rparr>"

definition requestTo :: "string \<Rightarrow> string \<Rightarrow> bool option \<Rightarrow> TranslateRequest" where
  "requestTo inputPath outputPath force =
     \<lparr>reqInputPath = inputPath, reqOutputPath = Some outputPath, reqInputLang = None,
      reqOutputLang = None, reqApiKey = None, reqImageModel = None, reqTextModel = None,
      reqForce = force\<rparr>"

definition tempFiles :: "string \<Rightarrow> byte list option" where
  "tempFiles =
     [''/tmp/input.png'' \<mapsto> [1, 2, 3, 250],
      ''/tmp/exists.png'' \<mapsto> [112, 108],
      ''/tmp/a.gif'' \<mapsto> [71, 73, 70]]"

definition tempWorld :: world where
  "tempWorld = \<lparr>files = tempFiles, calls = []\<rparr>"

definition hostWithKey :: "(error + Response) list \<Rightarrow> host" where
  "hostWithKey responses = \<lparr>upstream = queuedService responses, envApiKey = Some ''test-key''\<rparr>"

definition hostWithoutKey :: "(error + Response) list \<Rightarrow> host" where
  "hostWithoutKey responses = \<lparr>upstream = queuedService responses, envApiKey = None\<rparr>"


definition noisyTranslation :: Response where
  "noisyTranslation =
     \<lparr>respText = Some ''Sure: [{\"index\":0,\"translation\":\"hello\"}, {\"index\":1.5,\"translation\":\"x\"}, {\"index\":7,\"translation\":\"far\"}, {\"index\":\"1\",\"translation\":\"text\"}, {\"index\":0,\"translation\":\"hi\"}, {\"index\":2,\"translation\":\"\"}, null, {\"index\":-1,\"translation\":\"neg\"}, {\"index\":2e0,\"translation\":7}]'',
      respCandidates = None\<rparr>"

definition noisyExtraction :: Response where
  "noisyExtraction =
     \<lparr>respText = Some ''```json
[{\"text\":\" hola \",\"language\":\"es\"}, {\"text\":\"   \"}, 5, null, {\"text\":\"bye\"}, {\"text\":7}, {\"text\":\"ciao\",\"language\":\"it\"}]
```'',
      respCandidates = None\<rparr>"

section \<open>Sequencing lemmas\<close>

lemma bindIO_Inr: "m w = (Inr x, w') \<Longrightarrow> bindIO m f w = f x w'"
  by (simp add: bindIO_def)

lemma bindIO_liftIO:
  "bindIO (liftIO r) f w = (case r of Inl e \<Rightarrow> (Inl e, w) | Inr x \<Rightarrow> f x w)"
  by (simp add: bindIO_def liftIO_def split: sum.splits)

lemma generateContent_eq:
  "generateContent ai request w = (ai (calls w) request, w\<lparr>calls := calls w @ [request]\<rparr>)"
  by (simp add: generateContent_def)

lemma parseJsonArray_empty: "parseJsonArray [] = Inl MalformedModelOutput"
  by (simp add: parseJsonArray_def JSON_parse_def trim_def stripFenceOpen_def
      stripFenceClose_def toLowerCase_def lastIndexOf_def)

section \<open>MimeResolver: the supported extensions\<close>

text \<open>
  What \<open>path.extname\<close> returns for a path of the ordinary shape: a directory part that
  is empty or ends in a separator, a non-empty stem, a dot, and a non-empty extension
  without dot and separator. The scan passes the extension, the dot, the stem and stops
  at the separator.
\<close>

lemma extname_scan_plain:
  assumes "\<forall>c\<in>set xs. c \<noteq> CHR ''/'' \<and> c \<noteq> CHR ''.''"
    and "startDot st = None" and "endPart st = Some e"
  shows "extname_scan (xs @ rest) st = extname_scan rest st"
  using assms by (induction xs) (simp_all add: Let_def)

lemma extname_scan_ext:
  assumes "\<forall>c\<in>set (x # xs). c \<noteq> CHR ''/'' \<and> c \<noteq> CHR ''.''"
    and "startDot st = None" and "endPart st = None"
  shows "extname_scan ((x # xs) @ rest) st =
         extname_scan rest
           (st\<lparr>endPart := Some (length ((x # xs) @ rest)), matchedSlash := False\<rparr>)"
proof -
  from assms have "extname_scan ((x # xs) @ rest) st =
      extname_scan (xs @ rest)
        (st\<lparr>endPart := Some (length ((x # xs) @ rest)), matchedSlash := False\<rparr>)"
    by (simp add: Let_def)
  also have "\<dots> = extname_scan rest
        (st\<lparr>endPart := Some (length ((x # xs) @ rest)), matchedSlash := False\<rparr>)"
    using assms by (intro extname_scan_plain [where e = "length ((x # xs) @ rest)"]) simp_all
  finally show ?thesis .
qed

lemma extname_scan_dot:
  assumes "startDot st = None" and "endPart st = Some e"
  shows "extname_scan (CHR ''.'' # rest) st = extname_scan rest (st\<lparr>startDot := Some (length rest)\<rparr>)"
  using assms by (simp add: Let_def)

lemma preDotState_same: "preDotState st = v \<Longrightarrow> st\<lparr>preDotState := v\<rparr> = st"
  by (cases st) simp

lemma extname_scan_stem_step:
  assumes "c \<noteq> CHR ''/''" and "startDot st = Some d" and "endPart st = Some e"
  shows "extname_scan (c # rest) st =
         extname_scan rest (st\<lparr>preDotState := (if c = CHR ''.'' then 1 else - 1)\<rparr>)"
proof (cases "c = CHR ''.''")
  case True
  show ?thesis
  proof (cases "preDotState st = 1")
    case one: True
    from assms True one have "extname_scan (c # rest) st = extname_scan rest st"
      by (simp add: Let_def)
    with True one show ?thesis by (simp add: preDotState_same)
  next
    case False
    with assms True show ?thesis by (simp add: Let_def)
  qed
next
  case False
  with assms show ?thesis by (simp add: Let_def)
qed

lemma extname_scan_stem:
  assumes "\<forall>c\<in>set ys. c \<noteq> CHR ''/''" and "startDot st = Some d" and "endPart st = Some e"
  shows "\<exists>p. (ys \<noteq> [] \<longrightarrow> p \<noteq> 0) \<and> (ys = [] \<longrightarrow> p = preDotState st) \<and>
             extname_scan (ys @ rest) st = extname_scan rest (st\<lparr>preDotState := p\<rparr>)"
  using assms
proof (induction ys arbitrary: st)
  case Nil
  have "extname_scan ([] @ rest) st = extname_scan rest (st\<lparr>preDotState := preDotState st\<rparr>)"
    by simp
  then show ?case by blast
next
  case (Cons c ys)
  define q :: int where "q = (if c = CHR ''.'' then 1 else - 1)"
  have q: "q \<noteq> 0" by (simp add: q_def)
  from Cons.prems have step: "extname_scan ((c # ys) @ rest) st =
      extname_scan (ys @ rest) (st\<lparr>preDotState := q\<rparr>)"
    unfolding q_def append_Cons by (intro extname_scan_stem_step) simp_all
  from Cons.prems
  have "\<exists>p. (ys \<noteq> [] \<longrightarrow> p \<noteq> 0) \<and> (ys = [] \<longrightarrow> p = preDotState (st\<lparr>preDotState := q\<rparr>)) \<and>
      extname_scan (ys @ rest) (st\<lparr>preDotState := q\<rparr>) =
      extname_scan rest (st\<lparr>preDotState := q\<rparr>\<lparr>preDotState := p\<rparr>)"
    by (intro Cons.IH) simp_all
  then obtain p where p: "ys \<noteq> [] \<longrightarrow> p \<noteq> 0" "ys = [] \<longrightarrow> p = q"
    and rest: "extname_scan (ys @ rest) (st\<lparr>preDotState := q\<rparr>) =
      extname_scan rest (st\<lparr>preDotState := p\<rparr>)"
    by auto
  from p q have "p \<noteq> 0" by blast
  with step rest show ?case by (intro exI [of _ p]) simp
qed

lemma extname_scan_dir:
  assumes "dir = [] \<or> last dir = CHR ''/''" and "matchedSlash st = False"
  shows "\<exists>sp. extname_scan (rev dir) st = st\<lparr>startPart := sp\<rparr>"
proof (cases dir rule: rev_cases)
  case Nil
  then have "extname_scan (rev dir) st = st\<lparr>startPart := startPart st\<rparr>" by simp
  then show ?thesis ..
next
  case (snoc ds d)
  with assms have "extname_scan (rev dir) st = st\<lparr>startPart := length ds + 1\<rparr>"
    by (simp add: Let_def)
  then show ?thesis ..
qed

lemma path_extname_ordinary:
  assumes dir: "dir = [] \<or> last dir = CHR ''/''"
    and stem: "stem \<noteq> []" "CHR ''/'' \<notin> set stem"
    and ext: "ext \<noteq> []" "CHR ''/'' \<notin> set ext" "CHR ''.'' \<notin> set ext"
  shows "path_extname (dir @ stem @ CHR ''.'' # ext) = CHR ''.'' # ext"
proof -
  define path where "path = dir @ stem @ CHR ''.'' # ext"
  define init where "init = \<lparr>startDot = None, startPart = 0, endPart = None,
                 matchedSlash = True, preDotState = 0\<rparr>"
  define st1 where "st1 = init\<lparr>endPart := Some (length path), matchedSlash := False\<rparr>"
  define st2 where "st2 = st1\<lparr>startDot := Some (length (rev stem @ rev dir))\<rparr>"
  from ext(1) obtain x xs where x: "rev ext = x # xs" by (cases "rev ext") simp_all
  have r: "rev path = (x # xs) @ CHR ''.'' # rev stem @ rev dir"
    by (simp add: path_def x [symmetric])
  have len: "length ((x # xs) @ CHR ''.'' # rev stem @ rev dir) = length path"
    using arg_cong [OF r, of length] by simp
  from ext x have plain: "\<forall>c\<in>set (x # xs). c \<noteq> CHR ''/'' \<and> c \<noteq> CHR ''.''"
    by (metis set_rev)
  have "extname_scan (rev path) init = extname_scan (CHR ''.'' # rev stem @ rev dir) st1"
    unfolding r st1_def len [symmetric]
    by (rule extname_scan_ext [OF plain]) (simp_all add: init_def)
  also have "\<dots> = extname_scan (rev stem @ rev dir) st2"
    unfolding st2_def
    by (rule extname_scan_dot [where e = "length path"]) (simp_all add: st1_def init_def)
  finally have two: "extname_scan (rev path) init = extname_scan (rev stem @ rev dir) st2" .
  have "\<exists>p. (rev stem \<noteq> [] \<longrightarrow> p \<noteq> 0) \<and> (rev stem = [] \<longrightarrow> p = preDotState st2) \<and>
      extname_scan (rev stem @ rev dir) st2 = extname_scan (rev dir) (st2\<lparr>preDotState := p\<rparr>)"
    using stem(2)
    by (intro extname_scan_stem [where d = "length (rev stem @ rev dir)" and e = "length path"])
      (auto simp: st2_def st1_def init_def)
  with stem(1) obtain p where p: "p \<noteq> 0"
    and three: "extname_scan (rev stem @ rev dir) st2 =
      extname_scan (rev dir) (st2\<lparr>preDotState := p\<rparr>)"
    by auto
  have "\<exists>sp. extname_scan (rev dir) (st2\<lparr>preDotState := p\<rparr>) =
      st2\<lparr>preDotState := p\<rparr>\<lparr>startPart := sp\<rparr>"
    by (rule extname_scan_dir [OF dir]) (simp add: st2_def st1_def)
  then obtain sp where
    four: "extname_scan (rev dir) (st2\<lparr>preDotState := p\<rparr>) =
      st2\<lparr>preDotState := p\<rparr>\<lparr>startPart := sp\<rparr>" ..
  from two three four
  have fin: "extname_scan (rev path) init = st2\<lparr>preDotState := p\<rparr>\<lparr>startPart := sp\<rparr>"
    by simp
  have sd: "startDot (st2\<lparr>preDotState := p\<rparr>\<lparr>startPart := sp\<rparr>) = Some (length dir + length stem)"
    and en: "endPart (st2\<lparr>preDotState := p\<rparr>\<lparr>startPart := sp\<rparr>) = Some (length path)"
    and pd: "preDotState (st2\<lparr>preDotState := p\<rparr>\<lparr>startPart := sp\<rparr>) = p"
    by (simp_all add: st2_def st1_def)
  have lp: "length path = length dir + length stem + 1 + length ext"
    by (simp add: path_def)
  have sl: "slice path (length dir + length stem) (length path) = CHR ''.'' # ext"
    by (simp add: slice_def path_def)
  from ext(1) have "length dir + length stem \<noteq> length path - 1"
    by (simp add: lp)
  with p show ?thesis
    unfolding path_def [symmetric]
    by (simp add: path_extname_def init_def [symmetric] fin sd en pd sl del: rev_append rev.simps)
qed

lemma toLowerChar_dot: "toLowerChar (CHR ''.'') = CHR ''.''"
  by code_simp

corollary inferMimeType_ordinary:
  assumes "dir = [] \<or> last dir = CHR ''/''"
    and "stem \<noteq> []" "CHR ''/'' \<notin> set stem"
    and "ext \<noteq> []" "CHR ''/'' \<notin> set ext" "CHR ''.'' \<notin> set ext"
  shows "inferMimeType (dir @ stem @ CHR ''.'' # ext) =
     (if toLowerCase ext = ''png'' then Inr ''image/png''
      else if toLowerCase ext = ''jpg'' \<or> toLowerCase ext = ''jpeg'' then Inr ''image/jpeg''
      else if toLowerCase ext = ''webp'' then Inr ''image/webp''
      else if toLowerCase ext = ''heic'' then Inr ''image/heic''
      else Inl (Error (''Unsupported image extension: .'' @ toLowerCase ext)))"
proof -
  have "toLowerCase (path_extname (dir @ stem @ CHR ''.'' # ext)) = CHR ''.'' # toLowerCase ext"
    by (simp add: path_extname_ordinary [OF assms] toLowerCase_def toLowerChar_dot)
  then show ?thesis
    by (simp add: inferMimeType_def SUPPORTED_EXTENSIONS_def UnsupportedFormat_def Let_def)
qed


text \<open>
  C7. The extension of a path is what \<open>path.extname\<close> returns for it, compared in
  lower case. When it is \<open>.png\<close>, \<open>.jpg\<close>, \<open>.jpeg\<close>, \<open>.webp\<close> or \<open>.heic\<close> in any
  letter case, \<open>inferMimeType\<close> returns \<open>image/png\<close>, \<open>image/jpeg\<close>,
  \<open>image/jpeg\<close>, \<open>image/webp\<close>, \<open>image/heic\<close> respectively. For every other
  extension, none at all included, it fails with the UnsupportedFormat error, whose
  message names the lower-cased extension, or \<open>(none)\<close> when the path has none.
\<close>

theorem inferMimeType_by_extension:
  "let extension = toLowerCase (path_extname filePath) in
     (extension = ''.png'' \<longrightarrow> inferMimeType filePath = Inr ''image/png'') \<and>
     (extension = ''.jpg'' \<or> extension = ''.jpeg'' \<longrightarrow>
        inferMimeType filePath = Inr ''image/jpeg'') \<and>
     (extension = ''.webp'' \<longrightarrow> inferMimeType filePath = Inr ''image/webp'') \<and>
     (extension = ''.heic'' \<longrightarrow> inferMimeType filePath = Inr ''image/heic'') \<and>
     (extension \<notin> {''.png'', ''.jpg'', ''.jpeg'', ''.webp'', ''.heic''} \<longrightarrow>
        inferMimeType filePath =
          Inl (Error (''Unsupported image extension: '' @
                      (if extension = [] then ''(none)'' else extension))))"
  by (simp add: inferMimeType_def SUPPORTED_EXTENSIONS_def UnsupportedFormat_def Let_def)

text \<open>The theorem at eight paths: each supported extension in mixed case, an
  unsupported one, a name without a dot, and a dot file.\<close>

theorem inferMimeType_by_extension_witness:
  "inferMimeType ''/tmp/photo.PNG'' = Inr ''image/png'' \<and>
   inferMimeType ''scan.Jpg'' = Inr ''image/jpeg'' \<and>
   inferMimeType ''/home/u/pic.v2.jPeG'' = Inr ''image/jpeg'' \<and>
   inferMimeType ''menu.WEBP'' = Inr ''image/webp'' \<and>
   inferMimeType ''./shots/IMG_1.HeIc'' = Inr ''image/heic'' \<and>
   inferMimeType ''/tmp/a.gif'' = Inl (Error ''Unsupported image extension: .gif'') \<and>
   inferMimeType ''/tmp/README'' = Inl (Error ''Unsupported image extension: (none)'') \<and>
   inferMimeType ''/tmp/.png'' = Inl (Error ''Unsupported image extension: (none)'')"
proof -
  have e1: "toLowerCase (path_extname ''/tmp/photo.PNG'') = ''.png''" by code_simp
  have e2: "toLowerCase (path_extname ''scan.Jpg'') = ''.jpg''" by code_simp
  have e3: "toLowerCase (path_extname ''/home/u/pic.v2.jPeG'') = ''.jpeg''" by code_simp
  have e4: "toLowerCase (path_extname ''menu.WEBP'') = ''.webp''" by code_simp
  have e5: "toLowerCase (path_extname ''./shots/IMG_1.HeIc'') = ''.heic''" by code_simp
  have e6: "toLowerCase (path_extname ''/tmp/a.gif'') = ''.gif''" by code_simp
  have e7: "toLowerCase (path_extname ''/tmp/README'') = []" by code_simp
  have e8: "toLowerCase (path_extname ''/tmp/.png'') = []" by code_simp
  show ?thesis
    using inferMimeType_by_extension [of "''/tmp/photo.PNG''"]
      inferMimeType_by_extension [of "''scan.Jpg''"]
      inferMimeType_by_extension [of "''/home/u/pic.v2.jPeG''"]
      inferMimeType_by_extension [of "''menu.WEBP''"]
      inferMimeType_by_extension [of "''./shots/IMG_1.HeIc''"]
      inferMimeType_by_extension [of "''/tmp/a.gif''"]
      inferMimeType_by_extension [of "''/tmp/README''"]
      inferMimeType_by_extension [of "''/tmp/.png''"]
    unfolding Let_def e1 e2 e3 e4 e5 e6 e7 e8
    by simp
qed

section \<open>JsonArrayExtractor: the error of an unparseable bracket span\<close>

text \<open>The outcomes of \<open>parseJsonArray\<close>: an array, the MalformedModelOutput error,
  or the SyntaxError of the second parse.\<close>

lemma parseJsonArray_outcomes:
  "(\<exists>parsed. parseJsonArray rawText = Inr parsed) \<or>
   parseJsonArray rawText = Inl MalformedModelOutput \<or>
   parseJsonArray rawText = Inl SyntaxError"
  by (simp add: parseJsonArray_def Let_def split: option.splits jsval.splits)

text \<open>
  C1. The specification has \<open>parseJsonArray\<close> return an array or fail with the
  MalformedModelOutput error, and with nothing else. The second \<open>JSON.parse\<close>, on the
  span from the first \<open>[\<close> to the last \<open>]\<close>, stands outside any \<open>try\<close>: on the prose
  \<open>note [see] end\<close> the first parse fails and is caught, the span \<open>[see]\<close> is not
  JSON, and the SyntaxError of the second parse leaves the function as it is.
\<close>

theorem parseJsonArray_raw_syntax_error:
  "parseJsonArray ''note [see] end'' = Inl SyntaxError \<and> SyntaxError \<noteq> MalformedModelOutput"
  by code_simp

section \<open>A response without a text field\<close>

text \<open>
  C9. When the response of the service carries no \<open>text\<close> field, the extraction stage
  and the translation stage (which calls the service for a non-empty list of entries)
  read it as the empty string and fail with the MalformedModelOutput error, message
  "Model output did not contain a valid JSON array."; the call is logged.
\<close>

theorem undefined_text_is_malformed:
  "respText response = None \<longrightarrow>
     (ai (calls w) (extractRequest imageModel inlineImage) = Inr response \<longrightarrow>
        extractTextEntries ai imageModel inlineImage w =
          (Inl (Error ''Model output did not contain a valid JSON array.''),
           w\<lparr>calls := calls w @ [extractRequest imageModel inlineImage]\<rparr>)) \<and>
     (entries \<noteq> [] \<and>
      ai (calls w) (translateRequest textModel inputLang outputLang entries) = Inr response \<longrightarrow>
        translateEntries ai textModel inputLang outputLang entries w =
          (Inl (Error ''Model output did not contain a valid JSON array.''),
           w\<lparr>calls := calls w @ [translateRequest textModel inputLang outputLang entries]\<rparr>))"
  by (simp add: extractTextEntries_def translateEntries_def bindIO_def generateContent_eq
      liftIO_def parseJsonArray_empty MalformedModelOutput_def)

text \<open>The theorem for a service that answers the first call with an object that has
  no \<open>text\<close>.\<close>

theorem undefined_text_is_malformed_witness:
  "extractTextEntries (queuedService [Inr \<lparr>respText = None, respCandidates = None\<rparr>] ''key'')
       ''gemini-3-pro-image-preview'' \<lparr>imageData = ''AQID'', imageMimeType = ''image/png''\<rparr>
       \<lparr>files = Map.empty, calls = []\<rparr> =
     (Inl (Error ''Model output did not contain a valid JSON array.''),
      \<lparr>files = Map.empty,
       calls = [extractRequest ''gemini-3-pro-image-preview''
                  \<lparr>imageData = ''AQID'', imageMimeType = ''image/png''\<rparr>]\<rparr>) \<and>
   translateEntries (queuedService [Inr \<lparr>respText = None, respCandidates = None\<rparr>] ''key'')
       ''gemini-3-pro-preview'' ''auto'' ''english''
       [\<lparr>entryText = ''hola'', entryLanguage = Some ''es''\<rparr>]
       \<lparr>files = Map.empty, calls = []\<rparr> =
     (Inl (Error ''Model output did not contain a valid JSON array.''),
      \<lparr>files = Map.empty,
       calls = [translateRequest ''gemini-3-pro-preview'' ''auto'' ''english''
                  [\<lparr>entryText = ''hola'', entryLanguage = Some ''es''\<rparr>]]\<rparr>)"
  using undefined_text_is_malformed
    [of "\<lparr>respText = None, respCandidates = None\<rparr>"
        "queuedService [Inr \<lparr>respText = None, respCandidates = None\<rparr>] ''key''"
        "\<lparr>files = Map.empty, calls = []\<rparr>"
        "''gemini-3-pro-image-preview''" "\<lparr>imageData = ''AQID'', imageMimeType = ''image/png''\<rparr>"
        "[\<lparr>entryText = ''hola'', entryLanguage = Some ''es''\<rparr>]"
        "''gemini-3-pro-preview''" "''auto''" "''english''"]
  by (simp add: queuedService_def)

section \<open>RenderStage: the image of the response\<close>

lemma find_first: "\<forall>p\<in>set pre. \<not> P p \<Longrightarrow> P x \<Longrightarrow> find P (pre @ x # post) = Some x"
  by (induction pre) auto

lemma find_none: "\<forall>p\<in>set xs. \<not> P p \<Longrightarrow> find P xs = None"
  by (induction xs) auto

lemma renderImage_eq:
  "ai (calls w) (renderRequest imageModel outputLang inlineImage entries translations) = Inr response \<Longrightarrow>
   renderImage ai imageModel outputLang inlineImage entries translations w =
     ((case find (\<lambda>part. truthy (inlineDataOf part)) (firstCandidateParts response) of
         None \<Rightarrow> Inl MissingRenderedImage
       | Some part \<Rightarrow> (case inlineDataOf part of None \<Rightarrow> Inl MissingRenderedImage
                       | Some d \<Rightarrow> if d = [] then Inl MissingRenderedImage else Inr d)),
      w\<lparr>calls := calls w @ [renderRequest imageModel outputLang inlineImage entries translations]\<rparr>)"
  by (simp add: renderImage_def bindIO_def generateContent_eq liftIO_def returnIO_def Let_def
      split: option.splits)

text \<open>
  C6. The content parts of a render response are those of the first candidate
  (\<open>candidates[0].content.parts\<close>, the empty list when any link of the chain is
  absent), and a part carries inline image data when its \<open>inlineData.data\<close> is a
  non-empty string. When the service answers the render request, \<open>renderImage\<close>
  returns the data of the first part that carries inline image data; when no part does
  (an absent or empty candidates list and an empty parts list included) it fails with
  the MissingRenderedImage error, message "Gemini did not return an image.".
\<close>

theorem renderImage_first_inline_part:
  assumes answer:
    "ai (calls w) (renderRequest imageModel outputLang inlineImage entries translations) = Inr response"
  shows
    "(firstCandidateParts response = pre @ part # post \<and>
      (\<forall>p\<in>set pre. inlineDataOf p = None \<or> inlineDataOf p = Some []) \<and>
      inlineDataOf part = Some d \<and> d \<noteq> [] \<longrightarrow>
        renderImage ai imageModel outputLang inlineImage entries translations w =
          (Inr d,
           w\<lparr>calls := calls w @
               [renderRequest imageModel outputLang inlineImage entries translations]\<rparr>)) \<and>
     ((\<forall>p\<in>set (firstCandidateParts response).
          inlineDataOf p = None \<or> inlineDataOf p = Some []) \<or>
      respCandidates response = None \<or> respCandidates response = Some [] \<or>
      firstCandidateParts response = [] \<longrightarrow>
        renderImage ai imageModel outputLang inlineImage entries translations w =
          (Inl (Error ''Gemini did not return an image.''),
           w\<lparr>calls := calls w @
               [renderRequest imageModel outputLang inlineImage entries translations]\<rparr>))"
proof (intro conjI impI)
  let ?P = "\<lambda>part. truthy (inlineDataOf part)"
  have nt: "(inlineDataOf p = None \<or> inlineDataOf p = Some []) = (\<not> ?P p)" for p
    by (auto simp: truthy_def split: option.splits)
  {
    assume h: "firstCandidateParts response = pre @ part # post \<and>
      (\<forall>p\<in>set pre. inlineDataOf p = None \<or> inlineDataOf p = Some []) \<and>
      inlineDataOf part = Some d \<and> d \<noteq> []"
    then have "find ?P (firstCandidateParts response) = Some part"
      by (simp add: nt find_first truthy_def)
    with h show "renderImage ai imageModel outputLang inlineImage entries translations w =
          (Inr d,
           w\<lparr>calls := calls w @
               [renderRequest imageModel outputLang inlineImage entries translations]\<rparr>)"
      by (simp add: renderImage_eq [where ai = ai and w = w, OF answer])
  }
  {
    assume h: "(\<forall>p\<in>set (firstCandidateParts response).
          inlineDataOf p = None \<or> inlineDataOf p = Some []) \<or>
      respCandidates response = None \<or> respCandidates response = Some [] \<or>
      firstCandidateParts response = []"
    have "firstCandidateParts response = []"
      if "respCandidates response = None \<or> respCandidates response = Some []"
      using that by (auto simp: firstCandidateParts_def)
    with h have "\<forall>p\<in>set (firstCandidateParts response). \<not> ?P p"
      by (auto simp: nt)
    then have "find ?P (firstCandidateParts response) = None"
      by (rule find_none)
    then show "renderImage ai imageModel outputLang inlineImage entries translations w =
          (Inl (Error ''Gemini did not return an image.''),
           w\<lparr>calls := calls w @
               [renderRequest imageModel outputLang inlineImage entries translations]\<rparr>)"
      by (simp add: renderImage_eq [where ai = ai and w = w, OF answer] MissingRenderedImage_def)
  }
qed

text \<open>The theorem on a response whose third part is the first with data (after a
  text part and a part with empty data), and on a response without candidates.\<close>

theorem renderImage_first_inline_part_witness:
  "renderImage
     (queuedService
        [Inr \<lparr>respText = None,
              respCandidates = Some
                [\<lparr>candContent = Some \<lparr>contentParts = Some
                    [\<lparr>partInlineData = None, partText = Some ''done''\<rparr>,
                     \<lparr>partInlineData = Some \<lparr>blobData = Some [], blobMimeType = None\<rparr>,
                      partText = None\<rparr>,
                     \<lparr>partInlineData = Some \<lparr>blobData = Some ''QUJD'',
                                              blobMimeType = Some ''image/png''\<rparr>,
                      partText = None\<rparr>,
                     \<lparr>partInlineData = Some \<lparr>blobData = Some ''REVG'', blobMimeType = None\<rparr>,
                      partText = None\<rparr>]\<rparr>\<rparr>]\<rparr>] ''key'')
     ''m'' ''english'' \<lparr>imageData = ''AQID'', imageMimeType = ''image/png''\<rparr>
     [\<lparr>entryText = ''hola'', entryLanguage = None\<rparr>] [''hello'']
     \<lparr>files = Map.empty, calls = []\<rparr> =
   (Inr ''QUJD'',
    \<lparr>files = Map.empty,
     calls = [renderRequest ''m'' ''english'' \<lparr>imageData = ''AQID'', imageMimeType = ''image/png''\<rparr>
                [\<lparr>entryText = ''hola'', entryLanguage = None\<rparr>] [''hello'']]\<rparr>) \<and>
   renderImage
     (queuedService [Inr \<lparr>respText = Some ''no image'', respCandidates = None\<rparr>] ''key'')
     ''m'' ''english'' \<lparr>imageData = ''AQID'', imageMimeType = ''image/png''\<rparr>
     [\<lparr>entryText = ''hola'', entryLanguage = None\<rparr>] [''hello'']
     \<lparr>files = Map.empty, calls = []\<rparr> =
   (Inl (Error ''Gemini did not return an image.''),
    \<lparr>files = Map.empty,
     calls = [renderRequest ''m'' ''english'' \<lparr>imageData = ''AQID'', imageMimeType = ''image/png''\<rparr>
                [\<lparr>entryText = ''hola'', entryLanguage = None\<rparr>] [''hello'']]\<rparr>)"
proof -
  let ?good = "\<lparr>respText = None,
              respCandidates = Some
                [\<lparr>candContent = Some \<lparr>contentParts = Some
                    [\<lparr>partInlineData = None, partText = Some ''done''\<rparr>,
                     \<lparr>partInlineData = Some \<lparr>blobData = Some [], blobMimeType = None\<rparr>,
                      partText = None\<rparr>,
                     \<lparr>partInlineData = Some \<lparr>blobData = Some ''QUJD'',
                                              blobMimeType = Some ''image/png''\<rparr>,
                      partText = None\<rparr>,
                     \<lparr>partInlineData = Some \<lparr>blobData = Some ''REVG'', blobMimeType = None\<rparr>,
                      partText = None\<rparr>]\<rparr>\<rparr>]\<rparr>"
  let ?bad = "\<lparr>respText = Some ''no image'', respCandidates = None\<rparr>"
  let ?w = "\<lparr>files = Map.empty, calls = []\<rparr>"
  let ?img = "\<lparr>imageData = ''AQID'', imageMimeType = ''image/png''\<rparr>"
  let ?es = "[\<lparr>entryText = ''hola'', entryLanguage = None\<rparr>]"
  have g: "queuedService [Inr ?good] ''key'' (calls ?w)
             (renderRequest ''m'' ''english'' ?img ?es [''hello'']) = Inr ?good"
    by (simp add: queuedService_def)
  have b: "queuedService [Inr ?bad] ''key'' (calls ?w)
             (renderRequest ''m'' ''english'' ?img ?es [''hello'']) = Inr ?bad"
    by (simp add: queuedService_def)
  show ?thesis
    using renderImage_first_inline_part
        [where ai = "queuedService [Inr ?good] ''key''" and w = ?w, OF g,
         of "[\<lparr>partInlineData = None, partText = Some ''done''\<rparr>,
             \<lparr>partInlineData = Some \<lparr>blobData = Some [], blobMimeType = None\<rparr>,
              partText = None\<rparr>]"
           "\<lparr>partInlineData = Some \<lparr>blobData = Some ''QUJD'',
                                    blobMimeType = Some ''image/png''\<rparr>, partText = None\<rparr>"
           "[\<lparr>partInlineData = Some \<lparr>blobData = Some ''REVG'', blobMimeType = None\<rparr>,
              partText = None\<rparr>]" "''QUJD''"]
      renderImage_first_inline_part
        [where ai = "queuedService [Inr ?bad] ''key''" and w = ?w, OF b]
    by (simp add: firstCandidateParts_def inlineDataOf_def)
qed

section \<open>Orchestrator: the preamble\<close>

lemma ensureFileExists_eq:
  "ensureFileExists filePath w =
     (if files w filePath = None then Inl (InputNotFound filePath) else Inr (), w)"
  by (simp add: ensureFileExists_def fs_access_def split: option.splits)

lemma startsWith_append: "startsWith a n \<Longrightarrow> startsWith (a @ b) n"
  by (induction a n rule: startsWith.induct) auto

lemma includesStr_append: "includesStr a n \<Longrightarrow> includesStr (a @ b) n"
proof (induction a)
  case Nil
  then show ?case by (cases b) auto
next
  case (Cons c cs)
  then show ?case using startsWith_append [of "c # cs" n b] by auto
qed

lemma OutputExists_mentions: "includesStr (message (OutputExists outputPath)) ''already exists''"
proof -
  have "includesStr ''Output file already exists: '' ''already exists''" by code_simp
  then show ?thesis
    unfolding OutputExists_def message.simps by (rule includesStr_append)
qed

lemma ensureOutputWritable_force: "ensureOutputWritable outputPath True w = (Inr (), w)"
  by (simp add: ensureOutputWritable_def)

lemma ensureOutputWritable_exists:
  "files w outputPath \<noteq> None \<Longrightarrow>
   ensureOutputWritable outputPath False w = (Inl (OutputExists outputPath), w)"
  by (auto simp: ensureOutputWritable_def fs_stat_def OutputExists_mentions split: option.splits)

lemma readInlineImage_eq:
  "readInlineImage inputPath w =
     (case inferMimeType inputPath of
        Inl e \<Rightarrow> (Inl e, w)
      | Inr mimeType \<Rightarrow>
          (case files w inputPath of
             None \<Rightarrow> (Inl (ENOENT ''open'' inputPath), w)
           | Some bytes \<Rightarrow>
               (Inr \<lparr>imageData = base64_encode bytes, imageMimeType = mimeType\<rparr>, w)))"
  by (simp add: readInlineImage_def bindIO_def liftIO_def returnIO_def fs_readFile_def
      split: sum.splits option.splits)

lemma inferMimeType_unsupported:
  "toLowerCase (path_extname filePath) \<notin> set SUPPORTED_EXTENSIONS \<Longrightarrow>
   inferMimeType filePath = Inl (UnsupportedFormat (toLowerCase (path_extname filePath)))"
  by (simp add: inferMimeType_def Let_def)

lemma inferMimeType_supported:
  "toLowerCase (path_extname filePath) \<in> set SUPPORTED_EXTENSIONS \<Longrightarrow>
   \<exists>mimeType. inferMimeType filePath = Inr mimeType"
  by (simp add: inferMimeType_def Let_def)

lemma resolveApiKey_absent: "resolveApiKey None None = Inl MissingCredential"
  by (simp add: resolveApiKey_def)

lemma tempFiles_simps:
  "tempFiles ''/tmp/input.png'' = Some [1, 2, 3, 250]"
  "tempFiles ''/tmp/exists.png'' = Some [112, 108]"
  "tempFiles ''/tmp/a.gif'' = Some [71, 73, 70]"
  "tempFiles ''/tmp/missing.png'' = None"
  "tempFiles ''/tmp/input_translated.png'' = None"
  "tempFiles ''/tmp/a_translated.gif'' = None"
  by (simp_all add: tempFiles_def)

lemma tempWorld_guard:
  "ensureOutputWritable ''/tmp/a_translated.gif'' False tempWorld = (Inr (), tempWorld)"
  "ensureOutputWritable ''/tmp/input_translated.png'' False tempWorld = (Inr (), tempWorld)"
proof -
  have "\<not> includesStr (message (ENOENT ''stat'' ''/tmp/a_translated.gif'')) ''already exists''"
    "\<not> includesStr (message (ENOENT ''stat'' ''/tmp/input_translated.png'')) ''already exists''"
    by code_simp+
  then show
    "ensureOutputWritable ''/tmp/a_translated.gif'' False tempWorld = (Inr (), tempWorld)"
    "ensureOutputWritable ''/tmp/input_translated.png'' False tempWorld = (Inr (), tempWorld)"
    by (simp_all add: ensureOutputWritable_def fs_stat_def tempWorld_def tempFiles_simps)
qed

text \<open>
  C2, as the code has it. Both operations first verify that the input file exists
  (else InputNotFound naming the path); \<open>recreateImageWithTranslatedText\<close> then runs
  its output guard; both then read the input through MimeResolver (else
  UnsupportedFormat), and only then resolve the credential (a non-empty explicit key,
  else a non-empty environment value, else MissingCredential). So for a request whose input
  file exists (and, for the recreation, passes the output guard): an unsupported
  extension fails with UnsupportedFormat whether or not a credential is there, and a
  supported extension with no explicit key and no environment value fails with
  MissingCredential. Each of these failures leaves the world as it was: no upstream
  call, no file written.
\<close>

theorem preamble_order:
  "let inputPath = reqInputPath request;
       outputPath = orDefault (reqOutputPath request) (defaultOutputPath inputPath);
       extension = toLowerCase (path_extname inputPath);
       guardPasses = (ensureOutputWritable outputPath (orDefault (reqForce request) False) w
                        = (Inr (), w))
   in (files w inputPath = None \<longrightarrow>
         extractAndTranslateText h request w =
           (Inl (Error (''Input file not found: '' @ inputPath)), w) \<and>
         recreateImageWithTranslatedText h request w =
           (Inl (Error (''Input file not found: '' @ inputPath)), w)) \<and>
      (files w inputPath \<noteq> None \<and> extension \<notin> set SUPPORTED_EXTENSIONS \<longrightarrow>
         extractAndTranslateText h request w = (Inl (UnsupportedFormat extension), w) \<and>
         (guardPasses \<longrightarrow>
            recreateImageWithTranslatedText h request w = (Inl (UnsupportedFormat extension), w))) \<and>
      (files w inputPath \<noteq> None \<and> extension \<in> set SUPPORTED_EXTENSIONS \<and>
       reqApiKey request = None \<and> envApiKey h = None \<longrightarrow>
         extractAndTranslateText h request w =
           (Inl (Error ''GEMINI_API_KEY is required. Set it or pass --api-key.''), w) \<and>
         (guardPasses \<longrightarrow>
            recreateImageWithTranslatedText h request w =
              (Inl (Error ''GEMINI_API_KEY is required. Set it or pass --api-key.''), w))) \<and>
      (\<forall>k. k \<noteq> [] \<longrightarrow> resolveApiKey (envApiKey h) (Some k) = Inr k) \<and>
      (\<forall>k. k \<noteq> [] \<and> envApiKey h = Some k \<longrightarrow> resolveApiKey (envApiKey h) None = Inr k)"
proof -
  let ?inp = "reqInputPath request"
  let ?out = "orDefault (reqOutputPath request) (defaultOutputPath ?inp)"
  let ?ext = "toLowerCase (path_extname ?inp)"
  let ?guard = "ensureOutputWritable ?out (orDefault (reqForce request) False) w"
  have missing:
    "extractAndTranslateText h request w = (Inl (Error (''Input file not found: '' @ ?inp)), w)"
    "recreateImageWithTranslatedText h request w =
       (Inl (Error (''Input file not found: '' @ ?inp)), w)"
    if "files w ?inp = None"
    using that
    by (simp_all add: extractAndTranslateText_def recreateImageWithTranslatedText_def
        bindIO_def ensureFileExists_eq InputNotFound_def)
  have unsupported:
    "extractAndTranslateText h request w = (Inl (UnsupportedFormat ?ext), w)"
    "?guard = (Inr (), w) \<longrightarrow>
       recreateImageWithTranslatedText h request w = (Inl (UnsupportedFormat ?ext), w)"
    if "files w ?inp \<noteq> None" "?ext \<notin> set SUPPORTED_EXTENSIONS"
    using that inferMimeType_unsupported [OF that(2)]
    by (auto simp: extractAndTranslateText_def recreateImageWithTranslatedText_def
        bindIO_def ensureFileExists_eq readInlineImage_eq Let_def)
  have nokey:
    "extractAndTranslateText h request w =
       (Inl (Error ''GEMINI_API_KEY is required. Set it or pass --api-key.''), w)"
    "?guard = (Inr (), w) \<longrightarrow>
       recreateImageWithTranslatedText h request w =
         (Inl (Error ''GEMINI_API_KEY is required. Set it or pass --api-key.''), w)"
    if "files w ?inp \<noteq> None" "?ext \<in> set SUPPORTED_EXTENSIONS"
      "reqApiKey request = None" "envApiKey h = None"
    using that inferMimeType_supported [OF that(2)]
    by (auto simp: extractAndTranslateText_def recreateImageWithTranslatedText_def
        bindIO_def ensureFileExists_eq readInlineImage_eq Let_def liftIO_def
        resolveApiKey_absent MissingCredential_def)
  have resolved:
    "\<forall>k. k \<noteq> [] \<longrightarrow> resolveApiKey (envApiKey h) (Some k) = Inr k"
    "\<forall>k. k \<noteq> [] \<and> envApiKey h = Some k \<longrightarrow> resolveApiKey (envApiKey h) None = Inr k"
    by (simp_all add: resolveApiKey_def)
  show ?thesis
    unfolding Let_def using missing unsupported nokey resolved by blast
qed

text \<open>The theorem on the fixtures: a missing input, an existing GIF with a
  credential, and an existing PNG without one.\<close>

theorem preamble_order_witness:
  "extractAndTranslateText (hostWithKey []) (requestFor ''/tmp/missing.png'') tempWorld =
     (Inl (Error ''Input file not found: /tmp/missing.png''), tempWorld) \<and>
   recreateImageWithTranslatedText (hostWithKey []) (requestFor ''/tmp/missing.png'') tempWorld =
     (Inl (Error ''Input file not found: /tmp/missing.png''), tempWorld) \<and>
   extractAndTranslateText (hostWithKey []) (requestFor ''/tmp/a.gif'') tempWorld =
     (Inl (Error ''Unsupported image extension: .gif''), tempWorld) \<and>
   recreateImageWithTranslatedText (hostWithKey []) (requestFor ''/tmp/a.gif'') tempWorld =
     (Inl (Error ''Unsupported image extension: .gif''), tempWorld) \<and>
   extractAndTranslateText (hostWithoutKey []) (requestFor ''/tmp/input.png'') tempWorld =
     (Inl (Error ''GEMINI_API_KEY is required. Set it or pass --api-key.''), tempWorld) \<and>
   recreateImageWithTranslatedText (hostWithoutKey []) (requestFor ''/tmp/input.png'') tempWorld =
     (Inl (Error ''GEMINI_API_KEY is required. Set it or pass --api-key.''), tempWorld)"
proof -
  have ext: "toLowerCase (path_extname ''/tmp/a.gif'') = ''.gif''"
    "toLowerCase (path_extname ''/tmp/input.png'') = ''.png''"
    by code_simp+
  have out: "defaultOutputPath ''/tmp/a.gif'' = ''/tmp/a_translated.gif''"
    "defaultOutputPath ''/tmp/input.png'' = ''/tmp/input_translated.png''"
    by code_simp+
  have w: "files tempWorld = tempFiles" by (simp add: tempWorld_def)
  show ?thesis
    using preamble_order [of "requestFor ''/tmp/missing.png''" tempWorld "hostWithKey []"]
      preamble_order [of "requestFor ''/tmp/a.gif''" tempWorld "hostWithKey []"]
      preamble_order [of "requestFor ''/tmp/input.png''" tempWorld "hostWithoutKey []"]
    by (simp add: Let_def requestFor_def orDefault_def ext out w tempFiles_simps tempWorld_guard
        SUPPORTED_EXTENSIONS_def UnsupportedFormat_def hostWithoutKey_def)
qed

text \<open>The order of the specification (the credential before the read) does not
  hold on a request for an existing GIF file with no credential anywhere: both
  operations fail with UnsupportedFormat, not with MissingCredential.\<close>

theorem credential_resolved_last_counterexample:
  "files tempWorld ''/tmp/a.gif'' = Some [71, 73, 70] \<and>
   reqApiKey (requestFor ''/tmp/a.gif'') = None \<and>
   envApiKey (hostWithoutKey []) = None \<and>
   fst (extractAndTranslateText (hostWithoutKey []) (requestFor ''/tmp/a.gif'') tempWorld) =
     Inl (Error ''Unsupported image extension: .gif'') \<and>
   fst (recreateImageWithTranslatedText (hostWithoutKey []) (requestFor ''/tmp/a.gif'') tempWorld) =
     Inl (Error ''Unsupported image extension: .gif'') \<and>
   Error ''Unsupported image extension: .gif'' \<noteq> MissingCredential"
  by code_simp

section \<open>Orchestrator: the output guard\<close>

lemma bindIO_InrE:
  assumes "bindIO m f w = (Inr y, w'')"
  obtains x w' where "m w = (Inr x, w')" and "f x w' = (Inr y, w'')"
  using assms by (auto simp: bindIO_def split: prod.splits sum.splits)

lemma ensureFileExists_world: "ensureFileExists filePath w = (r, w') \<Longrightarrow> w' = w"
  by (auto simp: ensureFileExists_eq)

lemma ensureOutputWritable_world: "ensureOutputWritable outputPath force w = (r, w') \<Longrightarrow> w' = w"
  by (auto simp: ensureOutputWritable_def fs_stat_def Let_def split: if_splits option.splits)

lemma readInlineImage_world: "readInlineImage inputPath w = (r, w') \<Longrightarrow> w' = w"
  by (auto simp: readInlineImage_eq split: sum.splits option.splits)

lemma liftIO_world: "liftIO x w = (r, w') \<Longrightarrow> w' = w \<and> r = x"
  by (auto simp: liftIO_def)

lemma returnIO_world: "returnIO x w = (r, w') \<Longrightarrow> w' = w \<and> r = Inr x"
  by (auto simp: returnIO_def)

lemma extractTextEntries_world:
  "extractTextEntries ai imageModel inlineImage w = (r, w') \<Longrightarrow>
   w' = w\<lparr>calls := calls w @ [extractRequest imageModel inlineImage]\<rparr>"
  by (auto simp: extractTextEntries_def bindIO_def generateContent_eq liftIO_def returnIO_def
      split: sum.splits)

lemma translateEntries_world:
  "translateEntries ai textModel inputLang outputLang entries w = (r, w') \<Longrightarrow>
   w' = (if entries = [] then w
         else w\<lparr>calls := calls w @ [translateRequest textModel inputLang outputLang entries]\<rparr>)"
  by (auto simp: translateEntries_def bindIO_def generateContent_eq liftIO_def returnIO_def
      Let_def split: sum.splits if_splits)

lemma renderImage_world:
  "renderImage ai imageModel outputLang inlineImage entries translations w = (r, w') \<Longrightarrow>
   w' = w\<lparr>calls := calls w @
            [renderRequest imageModel outputLang inlineImage entries translations]\<rparr>"
  by (auto simp: renderImage_def bindIO_def generateContent_eq liftIO_def returnIO_def
      Let_def split: sum.splits option.splits if_splits)

lemma fs_writeFile_world:
  "fs_writeFile filePath bytes w = (r, w') \<Longrightarrow>
   w' = w\<lparr>files := (files w)(filePath \<mapsto> bytes)\<rparr> \<and> r = Inr ()"
  by (auto simp: fs_writeFile_def)

lemma recreate_success:
  assumes "recreateImageWithTranslatedText h request w = (Inr p, w')"
  shows "p = orDefault (reqOutputPath request) (defaultOutputPath (reqInputPath request)) \<and>
         (\<exists>bytes. files w' = (files w)(p \<mapsto> bytes))"
  using assms
  apply (simp only: recreateImageWithTranslatedText_def Let_def)
  apply (elim bindIO_InrE)
  apply (drule ensureFileExists_world ensureOutputWritable_world readInlineImage_world
      liftIO_world returnIO_world extractTextEntries_world translateEntries_world fs_writeFile_world)+
  apply (auto simp: returnIO_def dest!: renderImage_world split: if_splits)
  done


lemma bindIO_extends:
  assumes "bindIO m f w = (r, w'')"
    and "\<And>r' w'. m w = (r', w') \<Longrightarrow> \<exists>more. calls w' = calls w @ more"
    and "\<And>x w' r'. m w = (Inr x, w') \<Longrightarrow> f x w' = (r', w'') \<Longrightarrow>
           \<exists>more. calls w'' = calls w' @ more"
  shows "\<exists>more. calls w'' = calls w @ more"
proof (cases "m w")
  case (Pair r1 w1)
  show ?thesis
  proof (cases r1)
    case (Inl e)
    with Pair assms(1) have "w'' = w1" by (simp add: bindIO_def)
    with assms(2) [OF Pair] show ?thesis by simp
  next
    case (Inr x)
    with Pair assms(1) have "f x w1 = (r, w'')" by (simp add: bindIO_def)
    from assms(3) [OF Pair [unfolded Inr] this] assms(2) [OF Pair] show ?thesis by auto
  qed
qed

lemma after_extraction_extends:
  assumes "bindIO (translateEntries ai textModel inputLang outputLang entries) (\<lambda>translations.
           bindIO (if entries = [] then returnIO d
                   else renderImage ai imageModel outputLang inlineImage entries translations)
             (\<lambda>outputBase64.
           bindIO (fs_writeFile outputPath (base64_decode outputBase64)) (\<lambda>u.
           returnIO outputPath))) w = (r, w')"
  shows "\<exists>more. calls w' = calls w @ more"
  using assms
  apply (rule bindIO_extends)
   apply (drule translateEntries_world, simp)
  apply (erule bindIO_extends)
   apply (auto dest!: returnIO_world renderImage_world split: if_splits)[1]
  apply (erule bindIO_extends)
   apply (auto dest!: fs_writeFile_world returnIO_world)
  done

lemma recreate_proceeds:
  assumes "ensureOutputWritable
             (orDefault (reqOutputPath request) (defaultOutputPath (reqInputPath request)))
             (orDefault (reqForce request) False) w = (Inr (), w)"
    and "files w (reqInputPath request) = Some bytes"
    and "inferMimeType (reqInputPath request) = Inr mimeType"
    and "resolveApiKey (envApiKey h) (reqApiKey request) = Inr key"
  shows "\<exists>more. calls (snd (recreateImageWithTranslatedText h request w)) =
           calls w @
           extractRequest (orDefault (reqImageModel request) DEFAULT_IMAGE_MODEL)
             \<lparr>imageData = base64_encode bytes, imageMimeType = mimeType\<rparr> # more"
proof -
  let ?img = "\<lparr>imageData = base64_encode bytes, imageMimeType = mimeType\<rparr>"
  let ?im = "orDefault (reqImageModel request) DEFAULT_IMAGE_MODEL"
  let ?ai = "upstream h key"
  obtain r1 w1 where ex: "extractTextEntries ?ai ?im ?img w = (r1, w1)" by force
  then have w1: "w1 = w\<lparr>calls := calls w @ [extractRequest ?im ?img]\<rparr>"
    by (rule extractTextEntries_world)
  obtain r w' where run: "recreateImageWithTranslatedText h request w = (r, w')" by force
  have "\<exists>more. calls w' = calls w1 @ more"
  proof (cases r1)
    case (Inl e)
    with run ex assms have "w' = w1"
      by (simp add: recreateImageWithTranslatedText_def Let_def bindIO_def ensureFileExists_eq
          readInlineImage_eq liftIO_def)
    then show ?thesis by simp
  next
    case (Inr entries)
    with run ex assms show ?thesis
      by (simp add: recreateImageWithTranslatedText_def Let_def ensureFileExists_eq
          readInlineImage_eq bindIO_liftIO bindIO_Inr [where m = "extractTextEntries ?ai ?im ?img"]
          bindIO_Inr [where m = "ensureFileExists (reqInputPath request)"]
          bindIO_Inr [where m = "ensureOutputWritable _ _"]
          bindIO_Inr [where m = "readInlineImage (reqInputPath request)"])
        (erule after_extraction_extends)
  qed
  with w1 run show ?thesis by auto
qed

text \<open>
  C5, as the code has it. The input check comes first, so the statement is about
  requests whose input file exists. When the effective output path (the explicit one,
  else the derived one) exists and the overwrite flag is false or absent,
  \<open>recreateImageWithTranslatedText\<close> fails with the OutputExists error, which names
  the path and points to \<open>--force\<close>, and the world is as before: no upstream call, every
  file unchanged. With the flag set the guard returns without looking at the file
  system, whatever the path holds, and the operation goes on: once the image is read and
  the credential resolved, the extraction request is its first upstream call, and a run
  that succeeds returns the output path with the file system changed at that path only.
\<close>

theorem output_guard:
  "let inputPath = reqInputPath request;
       outputPath = orDefault (reqOutputPath request) (defaultOutputPath inputPath)
   in (files w inputPath \<noteq> None \<and> files w outputPath \<noteq> None \<and>
       orDefault (reqForce request) False = False \<longrightarrow>
         recreateImageWithTranslatedText h request w =
           (Inl (Error (''Output file already exists: '' @ outputPath @
                        ''. Use --force to overwrite.'')), w)) \<and>
      (reqForce request = Some True \<longrightarrow>
         ensureOutputWritable outputPath True w = (Inr (), w) \<and>
         (\<forall>bytes mimeType key.
            files w inputPath = Some bytes \<and> inferMimeType inputPath = Inr mimeType \<and>
            resolveApiKey (envApiKey h) (reqApiKey request) = Inr key \<longrightarrow>
              (\<exists>more. calls (snd (recreateImageWithTranslatedText h request w)) =
                 calls w @
                 extractRequest (orDefault (reqImageModel request) DEFAULT_IMAGE_MODEL)
                   \<lparr>imageData = base64_encode bytes, imageMimeType = mimeType\<rparr> # more)) \<and>
         (\<forall>p w'. recreateImageWithTranslatedText h request w = (Inr p, w') \<longrightarrow>
            p = outputPath \<and> (\<exists>written. files w' = (files w)(outputPath \<mapsto> written))))"
proof -
  let ?inp = "reqInputPath request"
  let ?out = "orDefault (reqOutputPath request) (defaultOutputPath ?inp)"
  have refused: "recreateImageWithTranslatedText h request w =
      (Inl (Error (''Output file already exists: '' @ ?out @ ''. Use --force to overwrite.'')), w)"
    if "files w ?inp \<noteq> None" "files w ?out \<noteq> None" "orDefault (reqForce request) False = False"
  proof -
    from that(1) have e: "ensureFileExists ?inp w = (Inr (), w)"
      by (simp add: ensureFileExists_eq)
    from that(3) ensureOutputWritable_exists [OF that(2)]
    have g: "ensureOutputWritable ?out (orDefault (reqForce request) False) w =
        (Inl (OutputExists ?out), w)"
      by simp
    show ?thesis
      by (simp add: recreateImageWithTranslatedText_def Let_def bindIO_def e g
          OutputExists_def)
  qed
  have proceeds: "\<exists>more. calls (snd (recreateImageWithTranslatedText h request w)) =
      calls w @ extractRequest (orDefault (reqImageModel request) DEFAULT_IMAGE_MODEL)
                  \<lparr>imageData = base64_encode bytes, imageMimeType = mimeType\<rparr> # more"
    if "reqForce request = Some True" "files w ?inp = Some bytes"
      "inferMimeType ?inp = Inr mimeType"
      "resolveApiKey (envApiKey h) (reqApiKey request) = Inr key" for bytes mimeType key
    using that by (intro recreate_proceeds) (simp_all add: orDefault_def ensureOutputWritable_force)
  show ?thesis
    unfolding Let_def
    using refused proceeds recreate_success [of h request w] ensureOutputWritable_force [of ?out w]
    by blast
qed

text \<open>The theorem on the fixtures: the existing output without the flag is refused;
  with the flag the run (whose extraction answer is the empty array) makes its
  extraction call and ends with the input's bytes in the output file.\<close>

theorem output_guard_witness:
  "recreateImageWithTranslatedText (hostWithKey [])
       (requestTo ''/tmp/input.png'' ''/tmp/exists.png'' None) tempWorld =
     (Inl (Error ''Output file already exists: /tmp/exists.png. Use --force to overwrite.''),
      tempWorld) \<and>
   (\<exists>more. calls (snd (recreateImageWithTranslatedText (hostWithKey [])
                          (requestTo ''/tmp/input.png'' ''/tmp/exists.png'' (Some True)) tempWorld)) =
      extractRequest DEFAULT_IMAGE_MODEL
        \<lparr>imageData = base64_encode [1, 2, 3, 250], imageMimeType = ''image/png''\<rparr> # more) \<and>
   fst (recreateImageWithTranslatedText (hostWithKey [])
          (requestTo ''/tmp/input.png'' ''/tmp/exists.png'' (Some True)) tempWorld) =
     Inr ''/tmp/exists.png'' \<and>
   files tempWorld ''/tmp/exists.png'' = Some [112, 108] \<and>
   files (snd (recreateImageWithTranslatedText (hostWithKey [])
                 (requestTo ''/tmp/input.png'' ''/tmp/exists.png'' (Some True)) tempWorld))
     ''/tmp/exists.png'' = Some [1, 2, 3, 250]"
proof -
  have mime: "inferMimeType ''/tmp/input.png'' = Inr ''image/png''" by code_simp
  have key: "resolveApiKey (envApiKey (hostWithKey [])) None = Inr ''test-key''"
    by (simp add: resolveApiKey_def hostWithKey_def)
  have w: "files tempWorld = tempFiles" "calls tempWorld = []" by (simp_all add: tempWorld_def)
  have run: "fst (recreateImageWithTranslatedText (hostWithKey [])
          (requestTo ''/tmp/input.png'' ''/tmp/exists.png'' (Some True)) tempWorld) =
     Inr ''/tmp/exists.png''"
    "files (snd (recreateImageWithTranslatedText (hostWithKey [])
                 (requestTo ''/tmp/input.png'' ''/tmp/exists.png'' (Some True)) tempWorld))
     ''/tmp/exists.png'' = Some [1, 2, 3, 250]"
    by code_simp+
  show ?thesis
    using output_guard [of "requestTo ''/tmp/input.png'' ''/tmp/exists.png'' None" tempWorld
        "hostWithKey []"]
      output_guard [of "requestTo ''/tmp/input.png'' ''/tmp/exists.png'' (Some True)" tempWorld
        "hostWithKey []"]
    by (simp add: Let_def requestTo_def orDefault_def w tempFiles_simps mime key run [unfolded requestTo_def])
qed

text \<open>Without the condition on the input file the statement does not hold: for a
  missing input the input check fails first, and the existing output path does not
  lead to OutputExists.\<close>

theorem output_guard_after_input_check_counterexample:
  "files tempWorld ''/tmp/exists.png'' = Some [112, 108] \<and>
   reqForce (requestTo ''/tmp/missing.png'' ''/tmp/exists.png'' None) = None \<and>
   fst (recreateImageWithTranslatedText (hostWithKey [])
          (requestTo ''/tmp/missing.png'' ''/tmp/exists.png'' None) tempWorld) =
     Inl (Error ''Input file not found: /tmp/missing.png'') \<and>
   Error ''Input file not found: /tmp/missing.png'' \<noteq> OutputExists ''/tmp/exists.png''"
  by code_simp

section \<open>TranslationStage: the merge by index\<close>



lemma length_assignElement [simp]: "length (assignElement output index v) = length output"
  by (simp add: assignElement_def split: option.splits)

lemma length_translateStep [simp]: "length (translateStep item output) = length output"
  by (simp add: translateStep_def Let_def split: option.splits jsval.splits)

lemma length_translateLoop [simp]: "length (translateLoop rawItems out) = length out"
  by (induction rawItems arbitrary: out)
    (simp_all only: translateLoop.simps length_translateStep)










section \<open>Result rows are never empty\<close>

lemma extractTextEntries_nonempty:
  assumes "extractTextEntries ai imageModel inlineImage w = (Inr entries, w')"
  shows "\<forall>entry\<in>set entries. entryText entry \<noteq> []"
  using assms
  by (auto simp: extractTextEntries_def returnIO_def elim!: bindIO_InrE)

lemma translateEntries_nonempty:
  assumes "translateEntries ai textModel inputLang outputLang entries w = (Inr translations, w')"
    and "\<forall>entry\<in>set entries. entryText entry \<noteq> []"
  shows "length translations = length entries \<and> (\<forall>t\<in>set translations. t \<noteq> [])"
proof (cases "entries = []")
  case True
  with assms(1) show ?thesis by (simp add: translateEntries_def returnIO_def)
next
  case False
  have "\<exists>rawItems. translations =
       map (\<lambda>index. if translateLoop rawItems (replicate (length entries) []) ! index \<noteq> []
                     then translateLoop rawItems (replicate (length entries) []) ! index
                     else entryText (entries ! index))
           [0..<length (translateLoop rawItems (replicate (length entries) []))]"
    using assms(1) False
    apply (simp only: translateEntries_def Let_def length_0_conv if_False)
    apply (elim bindIO_InrE)
    apply (simp only: returnIO_def prod.inject sum.inject)
    apply (erule conjE)
    apply (rule exI)
    apply (erule sym)
    done
  then obtain rawItems where
    "translations =
       map (\<lambda>index. if translateLoop rawItems (replicate (length entries) []) ! index \<noteq> []
                     then translateLoop rawItems (replicate (length entries) []) ! index
                     else entryText (entries ! index))
           [0..<length entries]"
    by (auto simp only: length_translateLoop length_replicate)
  moreover from assms(2) have "\<And>i. i < length entries \<Longrightarrow> [] \<noteq> entryText (entries ! i)"
    by (metis nth_mem)
  ultimately show ?thesis by auto
qed

text \<open>
  C8. Every row that a successful \<open>extractAndTranslateText\<close> returns has a non-empty
  \<open>sourceText\<close> and a non-empty \<open>translatedText\<close>: the extraction keeps only the
  entries whose trimmed text is non-empty, and the translation puts the source text
  where the accumulated translation is empty.
\<close>

theorem rows_never_empty:
  "extractAndTranslateText h request w = (Inr rows, w') \<longrightarrow>
     (\<forall>row\<in>set rows. sourceText row \<noteq> [] \<and> translatedText row \<noteq> [])"
proof
  assume "extractAndTranslateText h request w = (Inr rows, w')"
  then obtain ai imageModel inlineImage w1 w2 entries textModel inputLang outputLang w3 ts
    where ex: "extractTextEntries ai imageModel inlineImage w1 = (Inr entries, w2)"
      and tr: "translateEntries ai textModel inputLang outputLang entries w2 = (Inr ts, w3)"
      and rows: "rows = map (\<lambda>index.
                      \<lparr>sourceText = entryText (entries ! index),
                       sourceLanguage = entryLanguage (entries ! index),
                       translatedText = (if index < length ts then ts ! index
                                         else entryText (entries ! index))\<rparr>)
                   [0..<length entries]"
    unfolding extractAndTranslateText_def Let_def
    by (elim bindIO_InrE) (auto simp: returnIO_def)
  from extractTextEntries_nonempty [OF ex]
  have ne: "\<forall>entry\<in>set entries. entryText entry \<noteq> []" .
  from translateEntries_nonempty [OF tr ne]
  have "length ts = length entries" "\<forall>t\<in>set ts. t \<noteq> []" by simp_all
  with ne rows show "\<forall>row\<in>set rows. sourceText row \<noteq> [] \<and> translatedText row \<noteq> []"
    by auto
qed

text \<open>The theorem on a run whose extraction answer is fenced and holds blank and
  malformed items, and whose translation answer leaves positions without a usable
  translation.\<close>

theorem rows_never_empty_witness:
  "fst (extractAndTranslateText (hostWithKey [Inr noisyExtraction, Inr noisyTranslation])
          (requestFor ''/tmp/input.png'') tempWorld) =
     Inr [\<lparr>sourceText = ''hola'', sourceLanguage = Some ''es'', translatedText = ''hi''\<rparr>,
          \<lparr>sourceText = ''bye'', sourceLanguage = None, translatedText = ''bye''\<rparr>,
          \<lparr>sourceText = ''ciao'', sourceLanguage = Some ''it'', translatedText = ''ciao''\<rparr>] \<and>
   list_all (\<lambda>row. sourceText row \<noteq> [] \<and> translatedText row \<noteq> [])
     (case fst (extractAndTranslateText (hostWithKey [Inr noisyExtraction, Inr noisyTranslation])
                  (requestFor ''/tmp/input.png'') tempWorld) of
        Inl e \<Rightarrow> [] | Inr rows \<Rightarrow> rows)"
proof -
  let ?run = "extractAndTranslateText (hostWithKey [Inr noisyExtraction, Inr noisyTranslation])
          (requestFor ''/tmp/input.png'') tempWorld"
  let ?rows = "[\<lparr>sourceText = ''hola'', sourceLanguage = Some ''es'', translatedText = ''hi''\<rparr>,
          \<lparr>sourceText = ''bye'', sourceLanguage = None, translatedText = ''bye''\<rparr>,
          \<lparr>sourceText = ''ciao'', sourceLanguage = Some ''it'', translatedText = ''ciao''\<rparr>]"
  have r: "fst ?run = Inr ?rows" by code_simp
  then have "?run = (Inr ?rows, snd ?run)" by (metis prod.collapse)
  from rows_never_empty [THEN mp, OF this]
  have "list_all (\<lambda>row. sourceText row \<noteq> [] \<and> translatedText row \<noteq> []) ?rows"
    unfolding list_all_iff .
  with r show ?thesis by simp
qed

section \<open>Base64 round trip\<close>
















section \<open>Orchestrator: the copy of an image without text\<close>




end
